theory Spec2Isabelle
  imports Complex_Main "HOL-Library.Product_Lexorder" "HOL-Library.List_Lexorder"
    "HOL-Library.Char_ord"
begin

section \<open>Numbers, series and errors\<close>

text \<open>
  The analytics code works on pandas Series and DataFrames of floating-point numbers in
  which \<^verbatim>\<open>NaN\<close> stands for a missing value.  A numeric cell is modelled as a
  \<^typ>\<open>real option\<close>: \<open>Some x\<close> is the number \<open>x\<close> and \<open>None\<close> is \<^verbatim>\<open>NaN\<close>.  Rounding
  is not modelled.  Arithmetic propagates \<open>None\<close>; every comparison with \<open>None\<close> is false.
  The model has no infinities and no signed zeros: a division by zero yields \<open>None\<close>,
  where IEEE gives \<^verbatim>\<open>NaN\<close> for \<open>0/0\<close> and an infinity otherwise.  A divisor can be zero
  only in \<^verbatim>\<open>calculate_memory_pressure\<close> (used + free = 0) and in
  \<^verbatim>\<open>calculate_demand_capacity_ratio\<close> (available capacity = \<open>-\<epsilon>\<close>); for non-negative
  measurements, which the validators enforce, the first is \<open>0/0\<close> and the second does not
  occur.
\<close>

type_synonym num = "real option"
type_synonym series = "num list"

datatype py_error =
    ValueError string
  | KeyError string
  | TypeError string
  | ValidationError string

definition f_add :: "num \<Rightarrow> num \<Rightarrow> num" where
  "f_add a b = (case (a, b) of (Some x, Some y) \<Rightarrow> Some (x + y) | _ \<Rightarrow> None)"

definition f_sub :: "num \<Rightarrow> num \<Rightarrow> num" where
  "f_sub a b = (case (a, b) of (Some x, Some y) \<Rightarrow> Some (x - y) | _ \<Rightarrow> None)"

definition f_mul :: "num \<Rightarrow> num \<Rightarrow> num" where
  "f_mul a b = (case (a, b) of (Some x, Some y) \<Rightarrow> Some (x * y) | _ \<Rightarrow> None)"

definition f_div :: "num \<Rightarrow> num \<Rightarrow> num" where
  "f_div a b = (case (a, b) of
      (Some x, Some y) \<Rightarrow> (if y = 0 then None else Some (x / y))
    | _ \<Rightarrow> None)"

definition f_lt :: "num \<Rightarrow> real \<Rightarrow> bool" where
  "f_lt a c = (case a of Some x \<Rightarrow> x < c | None \<Rightarrow> False)"

definition f_gt :: "num \<Rightarrow> real \<Rightarrow> bool" where
  "f_gt a c = (case a of Some x \<Rightarrow> x > c | None \<Rightarrow> False)"

definition f_ge :: "num \<Rightarrow> real \<Rightarrow> bool" where
  "f_ge a c = (case a of Some x \<Rightarrow> x \<ge> c | None \<Rightarrow> False)"

text \<open>\<^verbatim>\<open>Series.clip(lower, upper)\<close>: either bound may be absent; \<^verbatim>\<open>NaN\<close> stays.\<close>

definition f_clip :: "real option \<Rightarrow> real option \<Rightarrow> num \<Rightarrow> num" where
  "f_clip lo hi a = (case a of
      None \<Rightarrow> None
    | Some x \<Rightarrow>
        (let y = (case lo of None \<Rightarrow> x | Some l \<Rightarrow> max x l)
         in Some (case hi of None \<Rightarrow> y | Some h \<Rightarrow> min y h)))"

definition fillna :: "real \<Rightarrow> num \<Rightarrow> num" where
  "fillna d a = (case a of None \<Rightarrow> Some d | Some x \<Rightarrow> Some x)"

text \<open>
  A binary operation on two Series aligns them on their index.  With the default
  positional index the result is as long as the longer operand, and a position that
  only one operand has is computed with \<^verbatim>\<open>NaN\<close> for the other.
\<close>

fun align2 :: "(num \<Rightarrow> num \<Rightarrow> 'c) \<Rightarrow> series \<Rightarrow> series \<Rightarrow> 'c list" where
  "align2 f [] [] = []"
| "align2 f (x # xs) [] = f x None # align2 f xs []"
| "align2 f [] (y # ys) = f None y # align2 f [] ys"
| "align2 f (x # xs) (y # ys) = f x y # align2 f xs ys"

text \<open>The values of a Series that are not \<^verbatim>\<open>NaN\<close>; reductions skip the others.\<close>

definition valid :: "series \<Rightarrow> real list" where
  "valid s = [x. Some x \<leftarrow> s]"

definition nanmin :: "series \<Rightarrow> num" where
  "nanmin s = (case valid s of [] \<Rightarrow> None | x # xs \<Rightarrow> Some (fold min xs x))"

definition nanmax :: "series \<Rightarrow> num" where
  "nanmax s = (case valid s of [] \<Rightarrow> None | x # xs \<Rightarrow> Some (fold max xs x))"

section \<open>Efficiency and severity classes (metrics.py, imbalance.py)\<close>

text \<open>The inner \<^verbatim>\<open>classify_row\<close> of \<^verbatim>\<open>classify_efficiency\<close>.\<close>

definition classify_row :: "num \<Rightarrow> num \<Rightarrow> string" where
  "classify_row util pif_val =
     (if f_lt util 10 then ''Idle''
      else if f_ge util 70 \<and> f_ge pif_val 0.75 then ''Efficient''
      else if f_ge util 70 \<and> f_lt pif_val 0.60 then ''Bottlenecked''
      else if f_ge util 40 \<and> f_ge pif_val 0.50 then ''Moderate''
      else ''Inefficient'')"

text \<open>
  \<^verbatim>\<open>classify_efficiency\<close> zips the two Series (stopping at the shorter) and builds a
  Series on the index of \<^verbatim>\<open>gpu_util\<close>; pandas raises \<^verbatim>\<open>ValueError\<close> when the list of
  labels is shorter than that index.
\<close>

definition classify_efficiency :: "series \<Rightarrow> series \<Rightarrow> py_error + string list" where
  "classify_efficiency gpu_util pif =
     (let labels = map (\<lambda>(u, p). classify_row u p) (zip gpu_util pif)
      in if length labels \<noteq> length gpu_util
         then Inl (ValueError ''Length of values does not match length of index'')
         else Inr labels)"

text \<open>The inner \<^verbatim>\<open>classify\<close> of \<^verbatim>\<open>classify_imbalance_severity\<close>.\<close>

definition classify :: "num \<Rightarrow> num \<Rightarrow> string" where
  "classify cis_val dcr_val =
     (if f_gt cis_val 0.7 \<or> f_gt dcr_val 2.0 then ''Critical''
      else if f_gt cis_val 0.5 \<or> f_gt dcr_val 1.0 then ''Warning''
      else if f_gt cis_val 0.3 then ''Moderate''
      else ''Healthy'')"

definition classify_imbalance_severity :: "series \<Rightarrow> series \<Rightarrow> py_error + string list" where
  "classify_imbalance_severity cis_s dcr_s =
     (let labels = map (\<lambda>(c, d). classify c d) (zip cis_s dcr_s)
      in if length labels \<noteq> length cis_s
         then Inl (ValueError ''Length of values does not match length of index'')
         else Inr labels)"

text \<open>
  The specification describes both classifiers as an ordered list of (predicate, label)
  rules, the first rule whose predicate holds giving the label, with a default label when
  none holds.  \<open>first_match\<close> is that reading; the two rule lists are the tables of the
  specification, in its order.
\<close>

fun first_match :: "(('a \<Rightarrow> bool) \<times> string) list \<Rightarrow> string \<Rightarrow> 'a \<Rightarrow> string" where
  "first_match [] dflt x = dflt"
| "first_match ((p, l) # rs) dflt x = (if p x then l else first_match rs dflt x)"


definition spec_severity_rules :: "((num \<times> num \<Rightarrow> bool) \<times> string) list" where
  "spec_severity_rules =
     [(\<lambda>(c, d). f_gt c 0.7 \<or> f_gt d 2.0, ''Critical''),
      (\<lambda>(c, d). f_gt c 0.5 \<or> f_gt d 1.0, ''Warning''),
      (\<lambda>(c, d). f_gt c 0.3, ''Moderate'')]"

section \<open>Normalization (metrics.py)\<close>

text \<open>
  \<^verbatim>\<open>s.rolling(window, min_periods=1)\<close> reduces, at each position, the trailing window of
  at most \<open>window\<close> elements ending there; the reductions skip \<^verbatim>\<open>NaN\<close> and give \<^verbatim>\<open>NaN\<close>
  when the window holds no number.
\<close>

definition rolling :: "(series \<Rightarrow> num) \<Rightarrow> nat \<Rightarrow> series \<Rightarrow> series" where
  "rolling agg w s = map (\<lambda>i. agg (drop (Suc i - w) (take (Suc i) s))) [0..<length s]"

text \<open>
  \<^verbatim>\<open>s.rank(pct=True)\<close>: the average rank of each value among the numbers of the Series
  (ties share the mean of their ranks), divided by how many numbers there are; \<^verbatim>\<open>NaN\<close>
  keeps \<^verbatim>\<open>NaN\<close>.
\<close>

definition rank_pct :: "series \<Rightarrow> series" where
  "rank_pct s =
     (let vs = valid s in
      map (\<lambda>a. case a of
             None \<Rightarrow> None
           | Some v \<Rightarrow>
               Some ((real (length (filter (\<lambda>x. x < v) vs))
                      + (real (length (filter (\<lambda>x. x = v) vs)) + 1) / 2)
                     / real (length vs))) s)"

text \<open>\<^verbatim>\<open>replace(0, 1)\<close> on a Series, and the scalar test \<^verbatim>\<open>range_val == 0\<close>.\<close>

definition replace_0_1 :: "num \<Rightarrow> num" where
  "replace_0_1 r = (if r = Some 0 then Some 1 else r)"

text \<open>
  \<^verbatim>\<open>normalize_series(s, method, window)\<close>.  \<^verbatim>\<open>if window:\<close> takes the rolling branch for a
  window that is given and not zero; pandas refuses a negative window.
\<close>

definition normalize_series :: "series \<Rightarrow> string \<Rightarrow> int option \<Rightarrow> py_error + series" where
  "normalize_series s method window =
     (if method = ''minmax'' then
        (if window \<noteq> None \<and> window \<noteq> Some 0 then
           (if the window < 0 then Inl (ValueError ''window must be an integer 0 or greater'')
            else
              let min_val = rolling nanmin (nat (the window)) s;
                  max_val = rolling nanmax (nat (the window)) s;
                  range_val = map replace_0_1 (align2 f_sub max_val min_val)
              in Inr (align2 f_div (align2 f_sub s min_val) range_val))
         else
           let min_val = nanmin s;
               max_val = nanmax s;
               range_val = replace_0_1 (f_sub max_val min_val)
           in Inr (map (\<lambda>x. f_div (f_sub x min_val) range_val) s))
      else if method = ''percentile'' then Inr (rank_pct s)
      else Inl (ValueError ''Unknown normalization method''))"

text \<open>
  The min-max scaling of one number of a Series without \<^verbatim>\<open>NaN\<close>, in closed form; the
  results below state \<^verbatim>\<open>normalize_series\<close> against it.
\<close>

definition unit_scale :: "real list \<Rightarrow> real \<Rightarrow> real" where
  "unit_scale xs x =
     (x - Min (set xs))
       / (if Max (set xs) - Min (set xs) = 0 then 1 else Max (set xs) - Min (set xs))"

section \<open>Imbalance scores (imbalance.py)\<close>

definition epsilon_default :: real where
  "epsilon_default = 1 / 1000000"

definition calculate_demand_capacity_ratio :: "series \<Rightarrow> series \<Rightarrow> real \<Rightarrow> series" where
  "calculate_demand_capacity_ratio pending_workloads available_capacity epsilon =
     align2 (\<lambda>p a. f_div p (f_add a (Some epsilon))) pending_workloads available_capacity"

definition bindE :: "'e + 'a \<Rightarrow> ('a \<Rightarrow> 'e + 'b) \<Rightarrow> 'e + 'b" where
  "bindE m f = (case m of Inl e \<Rightarrow> Inl e | Inr x \<Rightarrow> f x)"

definition calculate_queue_pressure_score ::
  "series \<Rightarrow> series \<Rightarrow> real \<Rightarrow> real \<Rightarrow> py_error + series" where
  "calculate_queue_pressure_score pending_workloads wait_time_seconds pending_weight wait_weight =
     bindE (normalize_series pending_workloads ''minmax'' None) (\<lambda>norm_pending.
     bindE (normalize_series wait_time_seconds ''minmax'' None) (\<lambda>norm_wait.
       Inr (align2 f_add (map (f_mul (Some pending_weight)) norm_pending)
                         (map (f_mul (Some wait_weight)) norm_wait))))"

definition calculate_composite_imbalance_score ::
  "series \<Rightarrow> series \<Rightarrow> series \<Rightarrow> real \<Rightarrow> real \<Rightarrow> real \<Rightarrow> py_error + series" where
  "calculate_composite_imbalance_score dcr efficiency_gap qps dcr_weight gap_weight qps_weight =
     bindE (normalize_series dcr ''minmax'' None) (\<lambda>norm_dcr.
     bindE (normalize_series (map (f_clip (Some 0) None) efficiency_gap) ''minmax'' None)
       (\<lambda>norm_gap.
       Inr (align2 f_add
             (align2 f_add (map (f_mul (Some dcr_weight)) norm_dcr)
                           (map (f_mul (Some gap_weight)) norm_gap))
             (map (f_mul (Some qps_weight)) qps))))"

section \<open>DataFrames\<close>

text \<open>
  A DataFrame is a finite map from column names to columns.  A column holds numbers
  (with \<^verbatim>\<open>NaN\<close>), strings (with nulls) or timestamps in seconds (with \<^verbatim>\<open>NaT\<close>).  Reading
  a column that is not there raises \<^verbatim>\<open>KeyError\<close>; arithmetic and ordering against numbers
  raise \<^verbatim>\<open>TypeError\<close> on a column that is not numeric.
\<close>

datatype column =
    NumCol series
  | StrCol "string option list"
  | TimeCol "nat option list"

type_synonym frame = "string \<rightharpoonup> column"

definition getcol :: "frame \<Rightarrow> string \<Rightarrow> py_error + column" where
  "getcol df c = (case df c of None \<Rightarrow> Inl (KeyError c) | Some col \<Rightarrow> Inr col)"

definition as_num :: "column \<Rightarrow> py_error + series" where
  "as_num col = (case col of
      NumCol s \<Rightarrow> Inr s
    | _ \<Rightarrow> Inl (TypeError ''unsupported operand type''))"

text \<open>The cells of a column as dictionary keys: only a string can be a key of the table.\<close>

definition as_keys :: "column \<Rightarrow> string option list" where
  "as_keys col = (case col of
      StrCol ks \<Rightarrow> ks
    | NumCol xs \<Rightarrow> map (\<lambda>_. None) xs
    | TimeCol ts \<Rightarrow> map (\<lambda>_. None) ts)"

section \<open>Efficiency calculator (metrics.py)\<close>

text \<open>
  The module-level dictionary \<^verbatim>\<open>GPU_SPECS\<close> maps a model name to a dictionary of its
  specification.  The calculators read it where they run; the model passes the table
  they read as an argument (the functions named \<open>\<dots>_with\<close>), and the functions with the
  source's names pass \<open>GPU_SPECS\<close>.
\<close>

type_synonym specs = "string \<rightharpoonup> (string \<rightharpoonup> real)"

definition GPU_SPECS :: specs where
  "GPU_SPECS =
     [''NVIDIA A10G'' \<mapsto> [''max_power'' \<mapsto> 300, ''achievable_tflops'' \<mapsto> 35],
      ''NVIDIA A100-SXM4-40GB'' \<mapsto> [''max_power'' \<mapsto> 400, ''achievable_tflops'' \<mapsto> 102],
      ''NVIDIA H100 80GB HBM3'' \<mapsto> [''max_power'' \<mapsto> 700, ''achievable_tflops'' \<mapsto> 646]]"

text \<open>\<^verbatim>\<open>table.get(x, {}).get(field, dflt)\<close> for a cell \<open>x\<close> of the model column.\<close>

definition spec_get :: "specs \<Rightarrow> string \<Rightarrow> real \<Rightarrow> string option \<Rightarrow> num" where
  "spec_get table field dflt x =
     (case x of
        None \<Rightarrow> Some dflt
      | Some m \<Rightarrow>
          (case table m of
             None \<Rightarrow> Some dflt
           | Some d \<Rightarrow> (case d field of None \<Rightarrow> Some dflt | Some v \<Rightarrow> Some v)))"

definition calculate_power_intensity_factor_with ::
  "specs \<Rightarrow> frame \<Rightarrow> string \<Rightarrow> string \<Rightarrow> py_error + series" where
  "calculate_power_intensity_factor_with table df power_col model_col =
     bindE (getcol df model_col) (\<lambda>models.
       let max_power = map (spec_get table ''max_power'' 400) (as_keys models) in
     bindE (getcol df power_col) (\<lambda>power_c.
     bindE (as_num power_c) (\<lambda>power.
       let pif = align2 f_div power max_power
       in Inr (map (f_clip (Some 0) (Some 1)) pif))))"

definition calculate_realized_tflops_with ::
  "specs \<Rightarrow> frame \<Rightarrow> series \<Rightarrow> string \<Rightarrow> py_error + series" where
  "calculate_realized_tflops_with table df pif model_col =
     bindE (getcol df model_col) (\<lambda>models.
       let achievable = map (spec_get table ''achievable_tflops'' 100) (as_keys models)
       in Inr (align2 f_mul achievable pif))"

definition calculate_rfu_with ::
  "specs \<Rightarrow> frame \<Rightarrow> series \<Rightarrow> string \<Rightarrow> py_error + series" where
  "calculate_rfu_with table df realized_tflops model_col =
     bindE (getcol df model_col) (\<lambda>models.
       let achievable = map (spec_get table ''achievable_tflops'' 100) (as_keys models);
           rfu = map (\<lambda>r. f_mul r (Some 100)) (align2 f_div realized_tflops achievable)
       in Inr (map (f_clip (Some 0) (Some 100)) rfu))"

definition calculate_power_intensity_factor ::
  "frame \<Rightarrow> string \<Rightarrow> string \<Rightarrow> py_error + series" where
  "calculate_power_intensity_factor = calculate_power_intensity_factor_with GPU_SPECS"

definition calculate_realized_tflops :: "frame \<Rightarrow> series \<Rightarrow> string \<Rightarrow> py_error + series" where
  "calculate_realized_tflops = calculate_realized_tflops_with GPU_SPECS"

definition calculate_rfu :: "frame \<Rightarrow> series \<Rightarrow> string \<Rightarrow> py_error + series" where
  "calculate_rfu = calculate_rfu_with GPU_SPECS"

definition calculate_efficiency_gap :: "series \<Rightarrow> series \<Rightarrow> series" where
  "calculate_efficiency_gap gpu_util rfu = align2 f_sub gpu_util rfu"

definition calculate_memory_pressure :: "series \<Rightarrow> series \<Rightarrow> series" where
  "calculate_memory_pressure used_mb free_mb =
     (let total = align2 f_add used_mb free_mb
      in map (fillna 0) (map (\<lambda>r. f_mul r (Some 100)) (align2 f_div used_mb total)))"

text \<open>
  \<^verbatim>\<open>add_efficiency_metrics\<close> is six statements \<^verbatim>\<open>df[name] = f(df)\<close> in a row.  One
  statement computes the column from the frame as it stands and stores it; when the
  computation raises, the frame keeps the columns stored so far and the later
  statements do not run.
\<close>

definition assign ::
  "string \<Rightarrow> (frame \<Rightarrow> py_error + column) \<Rightarrow> frame \<times> py_error option
     \<Rightarrow> frame \<times> py_error option" where
  "assign name f st =
     (case st of
        (df, Some e) \<Rightarrow> (df, Some e)
      | (df, None) \<Rightarrow>
          (case f df of Inl e \<Rightarrow> (df, Some e) | Inr col \<Rightarrow> (df(name \<mapsto> col), None)))"

definition num_column :: "frame \<Rightarrow> string \<Rightarrow> py_error + series" where
  "num_column df c = bindE (getcol df c) as_num"

definition add_efficiency_metrics_columns :: "specs \<Rightarrow> frame \<Rightarrow> frame \<times> py_error option" where
  "add_efficiency_metrics_columns table df0 =
     (assign ''efficiency_class'' (\<lambda>df.
        bindE (getcol df ''gpu_utilization_pct'') (\<lambda>util_c.
        bindE (getcol df ''power_intensity_factor'') (\<lambda>pif_c.
        bindE (as_num util_c) (\<lambda>util.
        bindE (as_num pif_c) (\<lambda>pif.
        bindE (classify_efficiency util pif) (\<lambda>labels.
          Inr (StrCol (map Some labels))))))))
      (assign ''memory_pressure_pct'' (\<lambda>df.
        bindE (getcol df ''memory_used_mb'') (\<lambda>used_c.
        bindE (getcol df ''memory_free_mb'') (\<lambda>free_c.
        bindE (as_num used_c) (\<lambda>used.
        bindE (as_num free_c) (\<lambda>free.
          Inr (NumCol (calculate_memory_pressure used free)))))))
      (assign ''efficiency_gap'' (\<lambda>df.
        bindE (getcol df ''gpu_utilization_pct'') (\<lambda>util_c.
        bindE (getcol df ''rfu_pct'') (\<lambda>rfu_c.
        bindE (as_num util_c) (\<lambda>util.
        bindE (as_num rfu_c) (\<lambda>rfu.
          Inr (NumCol (calculate_efficiency_gap util rfu)))))))
      (assign ''rfu_pct'' (\<lambda>df.
        bindE (num_column df ''realized_tflops'') (\<lambda>realized.
        bindE (calculate_rfu_with table df realized ''gpu_model'') (\<lambda>rfu.
          Inr (NumCol rfu))))
      (assign ''realized_tflops'' (\<lambda>df.
        bindE (num_column df ''power_intensity_factor'') (\<lambda>pif.
        bindE (calculate_realized_tflops_with table df pif ''gpu_model'') (\<lambda>realized.
          Inr (NumCol realized))))
      (assign ''power_intensity_factor'' (\<lambda>df.
        bindE (calculate_power_intensity_factor_with table df ''power_usage_watts'' ''gpu_model'')
          (\<lambda>pif. Inr (NumCol pif)))
      (df0, None)))))))"

text \<open>
  DataFrames are objects: a variable holds a reference.  The store is the list of the
  frames allocated so far and a reference is a position in it.  \<^verbatim>\<open>df.copy()\<close> allocates a
  new frame with the same columns (a deep copy: the columns are values here).
\<close>

type_synonym store = "frame list"

definition df_copy :: "store \<Rightarrow> nat \<Rightarrow> store \<times> nat" where
  "df_copy h r = (h @ [h ! r], length h)"

text \<open>
  \<^verbatim>\<open>add_efficiency_metrics(df, inplace)\<close> on the store: the result is the store afterwards
  and either the reference returned or the exception raised.
\<close>

definition add_efficiency_metrics_with ::
  "specs \<Rightarrow> store \<Rightarrow> nat \<Rightarrow> bool \<Rightarrow> store \<times> (py_error + nat)" where
  "add_efficiency_metrics_with table h df inplace =
     (let (h1, d) = (if \<not> inplace then df_copy h df else (h, df));
          (f, err) = add_efficiency_metrics_columns table (h1 ! d)
      in (h1[d := f], case err of None \<Rightarrow> Inr d | Some e \<Rightarrow> Inl e))"

definition add_efficiency_metrics :: "store \<Rightarrow> nat \<Rightarrow> bool \<Rightarrow> store \<times> (py_error + nat)" where
  "add_efficiency_metrics = add_efficiency_metrics_with GPU_SPECS"

text \<open>
  The default specification that the calculators fall back to, written as an entry of
  the table.
\<close>

definition default_entry :: "string \<rightharpoonup> real" where
  "default_entry = [''max_power'' \<mapsto> 400, ''achievable_tflops'' \<mapsto> 100]"

text \<open>
  The six columns \<^verbatim>\<open>add_efficiency_metrics\<close> stores, and what it needs of its argument:
  the model column, and the four measurements as numeric columns.  All columns of a
  DataFrame have the same number of rows.
\<close>

definition derived_columns :: "string list" where
  "derived_columns = [''power_intensity_factor'', ''realized_tflops'', ''rfu_pct'',
     ''efficiency_gap'', ''memory_pressure_pct'', ''efficiency_class'']"

definition col_len :: "column \<Rightarrow> nat" where
  "col_len col = (case col of NumCol xs \<Rightarrow> length xs | StrCol ks \<Rightarrow> length ks
     | TimeCol ts \<Rightarrow> length ts)"

definition frame_rows :: "frame \<Rightarrow> nat \<Rightarrow> bool" where
  "frame_rows df n = (\<forall>c \<in> dom df. col_len (the (df c)) = n)"

definition is_num :: "frame \<Rightarrow> string \<Rightarrow> bool" where
  "is_num df c = (case df c of Some (NumCol xs) \<Rightarrow> True | _ \<Rightarrow> False)"

definition dcgm_columns :: "frame \<Rightarrow> bool" where
  "dcgm_columns df \<longleftrightarrow>
     ''gpu_model'' \<in> dom df \<and> is_num df ''power_usage_watts''
     \<and> is_num df ''gpu_utilization_pct'' \<and> is_num df ''memory_used_mb''
     \<and> is_num df ''memory_free_mb''"

text \<open>
  Two frames for evaluating the calculators: two DCGM rows, one of a model that is not in
  the table; and one row of the A100 (\<open>max_power = 400\<close>, \<open>achievable_tflops = 102\<close>) at a
  given power.
\<close>

definition example_dcgm :: frame where
  "example_dcgm =
     [''gpu_model'' \<mapsto> StrCol [Some ''NVIDIA A100-SXM4-40GB'', Some ''uncatalogued''],
      ''power_usage_watts'' \<mapsto> NumCol [Some 400, Some 200],
      ''gpu_utilization_pct'' \<mapsto> NumCol [Some 80, Some 80],
      ''memory_used_mb'' \<mapsto> NumCol [Some 10000, Some 0],
      ''memory_free_mb'' \<mapsto> NumCol [Some 30000, Some 0]]"

definition a100 :: "real \<Rightarrow> frame" where
  "a100 watts = [''gpu_model'' \<mapsto> StrCol [Some ''NVIDIA A100-SXM4-40GB''],
                ''power_usage_watts'' \<mapsto> NumCol [Some watts]]"

section \<open>Validators (validators.py)\<close>

text \<open>
  A validator returns nothing or raises.  \<^verbatim>\<open>(df[c] < k).any()\<close> compares a numeric column
  with a number, \<^verbatim>\<open>NaN\<close> comparing false; \<^verbatim>\<open>(df[a] > df[b]).any()\<close> compares two columns
  row by row.  The text of a message that embeds a set or an exception is shortened to
  its fixed part.
\<close>

definition any_lt :: "frame \<Rightarrow> string \<Rightarrow> real \<Rightarrow> py_error + bool" where
  "any_lt df c k = bindE (num_column df c) (\<lambda>s. Inr (list_ex (\<lambda>a. f_lt a k) s))"

definition any_gt :: "frame \<Rightarrow> string \<Rightarrow> real \<Rightarrow> py_error + bool" where
  "any_gt df c k = bindE (num_column df c) (\<lambda>s. Inr (list_ex (\<lambda>a. f_gt a k) s))"

definition f_gt2 :: "num \<Rightarrow> num \<Rightarrow> bool" where
  "f_gt2 a b = (case (a, b) of (Some x, Some y) \<Rightarrow> x > y | _ \<Rightarrow> False)"

definition any_gt_col :: "frame \<Rightarrow> string \<Rightarrow> string \<Rightarrow> py_error + bool" where
  "any_gt_col df a b =
     bindE (num_column df a) (\<lambda>xs.
     bindE (num_column df b) (\<lambda>ys. Inr (list_ex (\<lambda>(x, y). f_gt2 x y) (zip xs ys))))"

text \<open>\<^verbatim>\<open>if cond: raise ValidationError(msg)\<close>, where evaluating \<open>cond\<close> may itself raise.\<close>

definition raise_if :: "py_error + bool \<Rightarrow> string \<Rightarrow> py_error + unit" where
  "raise_if cond msg =
     bindE cond (\<lambda>bad. if bad then Inl (ValidationError msg) else Inr ())"

definition check_required_columns :: "frame \<Rightarrow> string list \<Rightarrow> string \<Rightarrow> py_error + unit" where
  "check_required_columns df required dataset_name =
     (let missing = filter (\<lambda>c. df c = None) required
      in if missing \<noteq> [] then Inl (ValidationError (dataset_name @ '': Missing required columns''))
         else Inr ())"

text \<open>
  \<^verbatim>\<open>_check_timestamps\<close>.  A column has nulls when a cell is \<^verbatim>\<open>NaN\<close>, \<^verbatim>\<open>None\<close> or \<^verbatim>\<open>NaT\<close>.  A
  column of timestamps has a datetime dtype; any other column is handed to
  \<^verbatim>\<open>pd.to_datetime\<close>, a library function: whether it converts a column without raising is
  the parameter \<open>parses\<close>.
\<close>

definition has_null :: "column \<Rightarrow> bool" where
  "has_null col = (case col of
      NumCol xs \<Rightarrow> list_ex (\<lambda>x. x = None) xs
    | StrCol ks \<Rightarrow> list_ex (\<lambda>x. x = None) ks
    | TimeCol ts \<Rightarrow> list_ex (\<lambda>x. x = None) ts)"

definition is_datetime :: "column \<Rightarrow> bool" where
  "is_datetime col = (case col of TimeCol ts \<Rightarrow> True | _ \<Rightarrow> False)"

definition check_timestamps :: "(column \<Rightarrow> bool) \<Rightarrow> frame \<Rightarrow> string \<Rightarrow> py_error + unit" where
  "check_timestamps parses df dataset_name =
     bindE (getcol df ''timestamp'') (\<lambda>ts.
       if has_null ts
       then Inl (ValidationError (dataset_name @ '': timestamp contains null values''))
       else if \<not> is_datetime ts \<and> \<not> parses ts
       then Inl (ValidationError (dataset_name @ '': timestamp contains invalid datetime values''))
       else Inr ())"

definition nodepool_required :: "string list" where
  "nodepool_required =
     [''timestamp'', ''timestamp_hour'', ''nodegroup'', ''cluster'', ''region'',
      ''gpu_model'', ''capacity_gpu_count'', ''allocatable_gpu_count'']"

definition validate_nodepool_data :: "(column \<Rightarrow> bool) \<Rightarrow> frame \<Rightarrow> py_error + unit" where
  "validate_nodepool_data parses df =
     bindE (check_required_columns df nodepool_required ''nodepool_state'') (\<lambda>_.
     bindE (raise_if (any_lt df ''capacity_gpu_count'' 0)
              ''nodepool_state: capacity_gpu_count contains negative values'') (\<lambda>_.
     bindE (raise_if (any_lt df ''allocatable_gpu_count'' 0)
              ''nodepool_state: allocatable_gpu_count contains negative values'') (\<lambda>_.
     bindE (raise_if (any_gt_col df ''allocatable_gpu_count'' ''capacity_gpu_count'')
              ''nodepool_state: allocatable_gpu_count exceeds capacity_gpu_count'') (\<lambda>_.
     check_timestamps parses df ''nodepool_state''))))"

definition kueue_required :: "string list" where
  "kueue_required =
     [''timestamp'', ''timestamp_hour'', ''cluster'', ''region'', ''namespace'',
      ''queue_name'', ''nodegroup'', ''pending_workloads'', ''admission_wait_time_seconds'',
      ''admitted_active_workloads'', ''resource_usage'']"

text \<open>The loop over the three workload counts stops at the first that raises.\<close>

fun no_negative_counts :: "frame \<Rightarrow> string list \<Rightarrow> py_error + unit" where
  "no_negative_counts df [] = Inr ()"
| "no_negative_counts df (col # cols) =
     bindE (raise_if (any_lt df col 0) (''kueue_metrics: '' @ col @ '' contains negative values''))
       (\<lambda>_. no_negative_counts df cols)"

definition validate_kueue_data :: "(column \<Rightarrow> bool) \<Rightarrow> frame \<Rightarrow> py_error + unit" where
  "validate_kueue_data parses df =
     bindE (check_required_columns df kueue_required ''kueue_metrics'') (\<lambda>_.
     bindE (no_negative_counts df
              [''pending_workloads'', ''admitted_active_workloads'', ''resource_usage'']) (\<lambda>_.
     bindE (raise_if (any_lt df ''admission_wait_time_seconds'' 0)
              ''kueue_metrics: admission_wait_time_seconds contains negative values'') (\<lambda>_.
     check_timestamps parses df ''kueue_metrics'')))"

definition dcgm_required :: "string list" where
  "dcgm_required =
     [''timestamp'', ''timestamp_hour'', ''hostname'', ''cluster'', ''region'',
      ''nodegroup'', ''gpu_model'', ''gpu_uuid'', ''gpu_utilization_pct'',
      ''power_usage_watts'', ''memory_used_mb'', ''memory_free_mb'', ''gpu_temp_celsius'']"

text \<open>\<^verbatim>\<open>(df[c] < lo).any() or (df[c] > hi).any()\<close>: the second test runs when the first is false.\<close>

definition out_of_range :: "frame \<Rightarrow> string \<Rightarrow> real \<Rightarrow> real \<Rightarrow> py_error + bool" where
  "out_of_range df c lo hi =
     bindE (any_lt df c lo) (\<lambda>below. if below then Inr True else any_gt df c hi)"

definition validate_dcgm_data :: "(column \<Rightarrow> bool) \<Rightarrow> frame \<Rightarrow> py_error + unit" where
  "validate_dcgm_data parses df =
     bindE (check_required_columns df dcgm_required ''dcgm_metrics'') (\<lambda>_.
     bindE (raise_if (out_of_range df ''gpu_utilization_pct'' 0 100)
              ''dcgm_metrics: gpu_utilization_pct out of range [0, 100]'') (\<lambda>_.
     bindE (if df ''tensor_active_pct'' \<noteq> None
            then raise_if (out_of_range df ''tensor_active_pct'' 0 100)
                   ''dcgm_metrics: tensor_active_pct out of range [0, 100]''
            else Inr ()) (\<lambda>_.
     bindE (raise_if (any_lt df ''power_usage_watts'' 0)
              ''dcgm_metrics: power_usage_watts contains negative values'') (\<lambda>_.
     bindE (raise_if (any_lt df ''memory_used_mb'' 0)
              ''dcgm_metrics: memory_used_mb contains negative values'') (\<lambda>_.
     bindE (raise_if (any_lt df ''memory_free_mb'' 0)
              ''dcgm_metrics: memory_free_mb contains negative values'') (\<lambda>_.
     bindE (raise_if (out_of_range df ''gpu_temp_celsius'' 0 120)
              ''dcgm_metrics: gpu_temp_celsius out of range [0, 120]'') (\<lambda>_.
     check_timestamps parses df ''dcgm_metrics'')))))))"

definition validate_all ::
  "(column \<Rightarrow> bool) \<Rightarrow> frame \<Rightarrow> frame \<Rightarrow> frame \<Rightarrow> py_error + unit" where
  "validate_all parses nodepool_df kueue_df dcgm_df =
     bindE (validate_nodepool_data parses nodepool_df) (\<lambda>_.
     bindE (validate_kueue_data parses kueue_df) (\<lambda>_.
     validate_dcgm_data parses dcgm_df))"

text \<open>
  \<^verbatim>\<open>generate_synthetic_data\<close> (synthetic_generator.py) from the point where the three
  tables exist: it validates them, then writes them out and returns them.  The tables
  written and returned are the result; the random generation before is not modelled, the
  tables being arguments.
\<close>

definition generate_synthetic_data_emit ::
  "(column \<Rightarrow> bool) \<Rightarrow> frame \<Rightarrow> frame \<Rightarrow> frame \<Rightarrow> py_error + frame \<times> frame \<times> frame" where
  "generate_synthetic_data_emit parses nodepool_df kueue_df dcgm_df =
     bindE (validate_nodepool_data parses nodepool_df) (\<lambda>_.
     bindE (validate_kueue_data parses kueue_df) (\<lambda>_.
     bindE (validate_dcgm_data parses dcgm_df) (\<lambda>_.
     Inr (kueue_df, dcgm_df, nodepool_df))))"

text \<open>
  The checks as the specification lists them: a missing required column, a negative
  count or wait time, a utilization or percentage value outside [0, 100], a temperature
  outside [0, 120], allocatable exceeding capacity, a null timestamp, an unparseable
  timestamp.  \<open>nums\<close> are the numbers of a column, none when the column is missing or not
  numeric.
\<close>

definition nums :: "frame \<Rightarrow> string \<Rightarrow> series" where
  "nums df c = (case df c of Some (NumCol xs) \<Rightarrow> xs | _ \<Rightarrow> [])"

definition spec_missing :: "frame \<Rightarrow> string list \<Rightarrow> bool" where
  "spec_missing df required = list_ex (\<lambda>c. df c = None) required"

definition spec_negative :: "frame \<Rightarrow> string \<Rightarrow> bool" where
  "spec_negative df c = list_ex (\<lambda>a. f_lt a 0) (nums df c)"

definition spec_outside :: "frame \<Rightarrow> string \<Rightarrow> real \<Rightarrow> real \<Rightarrow> bool" where
  "spec_outside df c lo hi = list_ex (\<lambda>a. f_lt a lo \<or> f_gt a hi) (nums df c)"

definition spec_bad_timestamp :: "(column \<Rightarrow> bool) \<Rightarrow> frame \<Rightarrow> bool" where
  "spec_bad_timestamp parses df =
     (case df ''timestamp'' of
        None \<Rightarrow> False
      | Some ts \<Rightarrow> has_null ts \<or> (\<not> is_datetime ts \<and> \<not> parses ts))"

definition spec_nodepool_violation :: "(column \<Rightarrow> bool) \<Rightarrow> frame \<Rightarrow> bool" where
  "spec_nodepool_violation parses df \<longleftrightarrow>
     spec_missing df nodepool_required
     \<or> spec_negative df ''capacity_gpu_count'' \<or> spec_negative df ''allocatable_gpu_count''
     \<or> list_ex (\<lambda>(a, c). f_gt2 a c)
          (zip (nums df ''allocatable_gpu_count'') (nums df ''capacity_gpu_count''))
     \<or> spec_bad_timestamp parses df"

definition spec_kueue_violation :: "(column \<Rightarrow> bool) \<Rightarrow> frame \<Rightarrow> bool" where
  "spec_kueue_violation parses df \<longleftrightarrow>
     spec_missing df kueue_required
     \<or> spec_negative df ''pending_workloads'' \<or> spec_negative df ''admitted_active_workloads''
     \<or> spec_negative df ''resource_usage'' \<or> spec_negative df ''admission_wait_time_seconds''
     \<or> spec_bad_timestamp parses df"

definition spec_dcgm_violation :: "(column \<Rightarrow> bool) \<Rightarrow> frame \<Rightarrow> bool" where
  "spec_dcgm_violation parses df \<longleftrightarrow>
     spec_missing df dcgm_required
     \<or> spec_outside df ''gpu_utilization_pct'' 0 100
     \<or> spec_outside df ''tensor_active_pct'' 0 100
     \<or> spec_outside df ''gpu_temp_celsius'' 0 120
     \<or> spec_bad_timestamp parses df"

text \<open>
  The columns a validator compares with numbers hold numbers where they are present: the
  tables of the interface have numeric measurement columns.
\<close>

definition numeric_where_present :: "frame \<Rightarrow> string list \<Rightarrow> bool" where
  "numeric_where_present df cs = list_all (\<lambda>c. df c = None \<or> is_num df c) cs"

definition nodepool_numeric :: "string list" where
  "nodepool_numeric = [''capacity_gpu_count'', ''allocatable_gpu_count'']"

definition kueue_numeric :: "string list" where
  "kueue_numeric = [''pending_workloads'', ''admitted_active_workloads'', ''resource_usage'',
     ''admission_wait_time_seconds'']"

definition dcgm_numeric :: "string list" where
  "dcgm_numeric = [''gpu_utilization_pct'', ''tensor_active_pct'', ''power_usage_watts'',
     ''memory_used_mb'', ''memory_free_mb'', ''gpu_temp_celsius'']"

text \<open>A call raised \<^verbatim>\<open>ValidationError\<close>.\<close>

definition raises_validation :: "py_error + 'a \<Rightarrow> bool" where
  "raises_validation r = (case r of Inl (ValidationError m) \<Rightarrow> True | _ \<Rightarrow> False)"

text \<open>
  One-row tables after the validator tests of the repository (test_generators.py), with
  the capacity, the utilization and the power as parameters.
\<close>

definition test_nodepool :: "real \<Rightarrow> frame" where
  "test_nodepool capacity =
     [''timestamp'' \<mapsto> TimeCol [Some 1767225600],
      ''timestamp_hour'' \<mapsto> TimeCol [Some 1767225600],
      ''nodegroup'' \<mapsto> StrCol [Some ''test''],
      ''cluster'' \<mapsto> StrCol [Some ''cluster1''],
      ''region'' \<mapsto> StrCol [Some ''us-west-2''],
      ''gpu_model'' \<mapsto> StrCol [Some ''NVIDIA A100''],
      ''capacity_gpu_count'' \<mapsto> NumCol [Some capacity],
      ''allocatable_gpu_count'' \<mapsto> NumCol [Some 9]]"

definition test_kueue :: frame where
  "test_kueue =
     [''timestamp'' \<mapsto> TimeCol [Some 1767225600],
      ''timestamp_hour'' \<mapsto> TimeCol [Some 1767225600],
      ''cluster'' \<mapsto> StrCol [Some ''cluster1''],
      ''region'' \<mapsto> StrCol [Some ''us-west-2''],
      ''namespace'' \<mapsto> StrCol [Some ''ml-research''],
      ''queue_name'' \<mapsto> StrCol [Some ''training''],
      ''nodegroup'' \<mapsto> StrCol [Some ''test''],
      ''pending_workloads'' \<mapsto> NumCol [Some 4],
      ''admission_wait_time_seconds'' \<mapsto> NumCol [Some 120],
      ''admitted_active_workloads'' \<mapsto> NumCol [Some 6],
      ''resource_usage'' \<mapsto> NumCol [Some 6]]"

definition test_dcgm :: "real \<Rightarrow> real \<Rightarrow> frame" where
  "test_dcgm utilization watts =
     [''timestamp'' \<mapsto> TimeCol [Some 1767225600],
      ''timestamp_hour'' \<mapsto> TimeCol [Some 1767225600],
      ''hostname'' \<mapsto> StrCol [Some ''host1''],
      ''cluster'' \<mapsto> StrCol [Some ''cluster1''],
      ''region'' \<mapsto> StrCol [Some ''us-west-2''],
      ''nodegroup'' \<mapsto> StrCol [Some ''ng1''],
      ''gpu_model'' \<mapsto> StrCol [Some ''NVIDIA A100''],
      ''gpu_uuid'' \<mapsto> StrCol [Some ''GPU-123''],
      ''gpu_utilization_pct'' \<mapsto> NumCol [Some utilization],
      ''power_usage_watts'' \<mapsto> NumCol [Some watts],
      ''memory_used_mb'' \<mapsto> NumCol [Some 10000],
      ''memory_free_mb'' \<mapsto> NumCol [Some 30000],
      ''gpu_temp_celsius'' \<mapsto> NumCol [Some 50]]"

section \<open>Aggregation and join (aggregations.py, imbalance.py)\<close>

text \<open>
  The join stage groups and joins on the pair (hour, nodegroup).  Its input tables are
  modelled by the rows the stage reads: the timestamp in seconds, the hour column, the
  nodegroup, and the numeric cells by column name; \<open>columns\<close> lists the numeric columns
  the table has.  An aggregated table has one row per key, in key order, each row an
  association list from its value columns to cells.
\<close>

type_synonym key = "nat \<times> string"

record row =
  timestamp :: nat
  timestamp_hour :: nat
  nodegroup :: string
  cells :: "string \<Rightarrow> num"

record table =
  columns :: "string list"
  rows :: "row list"

record agg_table =
  value_columns :: "string list"
  agg_rows :: "(key \<times> (string \<times> num) list) list"

datatype reduction = AggSum | AggMean | AggMax | AggFirst

text \<open>
  The reductions skip \<^verbatim>\<open>NaN\<close>: the sum of no number is 0; the mean, the maximum and the
  first of no number are \<^verbatim>\<open>NaN\<close>.
\<close>

definition reduce :: "reduction \<Rightarrow> series \<Rightarrow> num" where
  "reduce a s = (case a of
      AggSum \<Rightarrow> Some (sum_list (valid s))
    | AggMean \<Rightarrow>
        (if valid s = [] then None else Some (sum_list (valid s) / real (length (valid s))))
    | AggMax \<Rightarrow> nanmax s
    | AggFirst \<Rightarrow> (case valid s of [] \<Rightarrow> None | x # _ \<Rightarrow> Some x))"

definition row_key :: "row \<Rightarrow> key" where
  "row_key r = (timestamp_hour r, nodegroup r)"

text \<open>
  \<^verbatim>\<open>df.groupby([time_col, group_col]).agg(config).reset_index()\<close>: a configured column
  that the table lacks raises \<^verbatim>\<open>KeyError\<close>; the groups come out sorted by key.
\<close>

definition groupby_agg :: "table \<Rightarrow> (string \<times> reduction) list \<Rightarrow> py_error + agg_table" where
  "groupby_agg df agg_config =
     (case filter (\<lambda>c. c \<notin> set (columns df)) (map fst agg_config) of
        c # _ \<Rightarrow> Inl (KeyError c)
      | [] \<Rightarrow>
          Inr \<lparr> value_columns = map fst agg_config,
                agg_rows =
                  map (\<lambda>k. (k, map (\<lambda>(c, a).
                                    (c, reduce a (map (\<lambda>r. cells r c)
                                                   (filter (\<lambda>r. row_key r = k) (rows df)))))
                                agg_config))
                    (sort (remdups (map row_key (rows df)))) \<rparr>)"

definition floor_hour :: "nat \<Rightarrow> nat" where
  "floor_hour t = (t div 3600) * 3600"

text \<open>
  \<^verbatim>\<open>aggregate_to_hourly(df, group_cols=[join_col], agg_config)\<close>: the hour column is
  recomputed from the timestamp; without a configuration every numeric column is
  averaged.
\<close>

definition aggregate_to_hourly ::
  "table \<Rightarrow> (string \<times> reduction) list option \<Rightarrow> py_error + agg_table" where
  "aggregate_to_hourly df agg_config =
     (let df1 = df\<lparr> rows := map (\<lambda>r. r\<lparr> timestamp_hour := floor_hour (timestamp r) \<rparr>) (rows df) \<rparr>;
          config = (case agg_config of
                      None \<Rightarrow> map (\<lambda>c. (c, AggMean)) (columns df1)
                    | Some cfg \<Rightarrow> cfg)
      in groupby_agg df1 config)"

definition lookup_cell :: "(string \<times> num) list \<Rightarrow> string \<Rightarrow> num" where
  "lookup_cell cs c = (case map_of cs c of None \<Rightarrow> None | Some v \<Rightarrow> v)"

text \<open>
  \<^verbatim>\<open>left.merge(right, on=[time_col, group_col], how='outer', suffixes=\<dots>)\<close> for tables with
  one row per key: one row for every key of either side, in key order; the cells of a
  side that has no row for the key are \<^verbatim>\<open>NaN\<close>; a value column that both sides have gets
  the side's suffix.
\<close>

definition merge_side :: "agg_table \<Rightarrow> (string \<Rightarrow> string) \<Rightarrow> key \<Rightarrow> (string \<times> num) list" where
  "merge_side t name k =
     map (\<lambda>c. (name c, case map_of (agg_rows t) k of
                           None \<Rightarrow> None
                         | Some cs \<Rightarrow> lookup_cell cs c))
       (value_columns t)"

definition merge_outer :: "agg_table \<Rightarrow> agg_table \<Rightarrow> string \<times> string \<Rightarrow> agg_table" where
  "merge_outer l r suffixes =
     (let lname = (\<lambda>c. if c \<in> set (value_columns r) then c @ fst suffixes else c);
          rname = (\<lambda>c. if c \<in> set (value_columns l) then c @ snd suffixes else c)
      in \<lparr> value_columns = map lname (value_columns l) @ map rname (value_columns r),
            agg_rows =
              map (\<lambda>k. (k, merge_side l lname k @ merge_side r rname k))
                (sort (remdups (map fst (agg_rows l) @ map fst (agg_rows r)))) \<rparr>)"

text \<open>\<^verbatim>\<open>df.fillna({column: value, \<dots>})\<close>: only the named columns are filled.\<close>

definition fillna_columns :: "(string \<times> real) list \<Rightarrow> agg_table \<Rightarrow> agg_table" where
  "fillna_columns fills t =
     t\<lparr> agg_rows :=
          map (\<lambda>(k, cs). (k, map (\<lambda>(c, v). (c, case map_of fills c of
                                                    None \<Rightarrow> v
                                                  | Some d \<Rightarrow> fillna d v)) cs))
            (agg_rows t) \<rparr>"

definition mean_or_first :: "table \<Rightarrow> string \<Rightarrow> reduction" where
  "mean_or_first df c = (if c \<in> set (columns df) then AggMean else AggFirst)"

definition demand_columns :: "string list" where
  "demand_columns = [''pending_workloads'', ''admission_wait_time_seconds'',
     ''admitted_active_workloads'', ''resource_usage'']"

definition build_unified_model :: "table \<Rightarrow> table \<Rightarrow> table \<Rightarrow> py_error + agg_table" where
  "build_unified_model kueue_df dcgm_df nodepool_df =
     bindE (aggregate_to_hourly kueue_df (Some
        [(''pending_workloads'', AggSum),
         (''admission_wait_time_seconds'', AggMean),
         (''admitted_active_workloads'', AggSum),
         (''resource_usage'', AggSum),
         (''evicted_workloads_total'', AggMax)])) (\<lambda>kueue_hourly.
     bindE (aggregate_to_hourly dcgm_df (Some
        [(''gpu_utilization_pct'', AggMean),
         (''power_usage_watts'', AggMean),
         (''power_intensity_factor'', mean_or_first dcgm_df ''power_intensity_factor''),
         (''rfu_pct'', mean_or_first dcgm_df ''rfu_pct''),
         (''efficiency_gap'', mean_or_first dcgm_df ''efficiency_gap''),
         (''memory_used_mb'', AggMean),
         (''gpu_temp_celsius'', AggMean),
         (''tensor_active_pct'', mean_or_first dcgm_df ''tensor_active_pct'')])) (\<lambda>dcgm_hourly.
     bindE (aggregate_to_hourly nodepool_df (Some
        [(''capacity_gpu_count'', AggMean),
         (''allocatable_gpu_count'', AggMean)])) (\<lambda>nodepool_hourly.
       let unified = merge_outer kueue_hourly nodepool_hourly (''_kueue'', ''_nodepool'');
           unified = merge_outer unified dcgm_hourly ([], ''_dcgm'')
       in Inr (fillna_columns
                 [(''pending_workloads'', 0), (''admission_wait_time_seconds'', 0),
                  (''admitted_active_workloads'', 0), (''resource_usage'', 0)]
                 unified))))"

text \<open>
  The join stage of \<^verbatim>\<open>calculate_all_imbalance_metrics\<close> (the three aggregations and the two
  merges, with the default suffixes of \<^verbatim>\<open>merge\<close>), then the rest of the function.
\<close>

definition imbalance_join :: "table \<Rightarrow> table \<Rightarrow> table \<Rightarrow> py_error + agg_table" where
  "imbalance_join kueue_df dcgm_df nodepool_df =
     bindE (groupby_agg kueue_df
        [(''pending_workloads'', AggSum),
         (''admission_wait_time_seconds'', AggMean),
         (''admitted_active_workloads'', AggSum),
         (''resource_usage'', AggSum)]) (\<lambda>kueue_agg.
     bindE (groupby_agg dcgm_df
        [(''gpu_utilization_pct'', AggMean),
         (''power_intensity_factor'', AggMean),
         (''rfu_pct'', AggMean),
         (''efficiency_gap'', AggMean),
         (''memory_pressure_pct'', AggMean)]) (\<lambda>dcgm_agg.
     bindE (groupby_agg nodepool_df
        [(''capacity_gpu_count'', AggMean),
         (''allocatable_gpu_count'', AggMean)]) (\<lambda>nodepool_agg.
       let result = merge_outer kueue_agg nodepool_agg (''_x'', ''_y'')
       in Inr (merge_outer result dcgm_agg (''_x'', ''_y'')))))"

text \<open>\<^verbatim>\<open>result[c]\<close> and \<^verbatim>\<open>result[c] = series\<close> on the joined table.\<close>

definition column_of :: "agg_table \<Rightarrow> string \<Rightarrow> py_error + series" where
  "column_of t c =
     (if c \<in> set (value_columns t) then Inr (map (\<lambda>(k, cs). lookup_cell cs c) (agg_rows t))
      else Inl (KeyError c))"

definition set_column :: "agg_table \<Rightarrow> string \<Rightarrow> series \<Rightarrow> agg_table" where
  "set_column t c s =
     \<lparr> value_columns =
         (if c \<in> set (value_columns t) then value_columns t else value_columns t @ [c]),
       agg_rows =
         map (\<lambda>((k, cs), v).
                (k, if c \<in> set (map fst cs)
                    then map (\<lambda>(c', v'). if c' = c then (c, v) else (c', v')) cs
                    else cs @ [(c, v)]))
           (zip (agg_rows t) (s @ replicate (length (agg_rows t) - length s) None)) \<rparr>"

text \<open>
  The result is the joined table with its four numeric score columns, and the severity
  labels, one per row.
\<close>

definition calculate_all_imbalance_metrics ::
  "table \<Rightarrow> table \<Rightarrow> table \<Rightarrow> py_error + agg_table \<times> string list" where
  "calculate_all_imbalance_metrics kueue_df dcgm_df nodepool_df =
     bindE (imbalance_join kueue_df dcgm_df nodepool_df) (\<lambda>result.
     bindE (column_of result ''allocatable_gpu_count'') (\<lambda>allocatable.
     bindE (column_of result ''resource_usage'') (\<lambda>usage.
       let result = set_column result ''available_capacity''
                      (map (f_clip (Some 0) None) (align2 f_sub allocatable usage)) in
     bindE (column_of result ''pending_workloads'') (\<lambda>pending.
     bindE (column_of result ''available_capacity'') (\<lambda>available.
       let result = set_column result ''demand_capacity_ratio''
                      (calculate_demand_capacity_ratio pending available epsilon_default) in
     bindE (column_of result ''pending_workloads'') (\<lambda>pending.
     bindE (column_of result ''admission_wait_time_seconds'') (\<lambda>wait.
     bindE (calculate_queue_pressure_score pending wait 0.6 0.4) (\<lambda>qps.
       let result = set_column result ''queue_pressure_score'' qps in
     bindE (column_of result ''demand_capacity_ratio'') (\<lambda>dcr.
     bindE (column_of result ''efficiency_gap'') (\<lambda>gap.
     bindE (column_of result ''queue_pressure_score'') (\<lambda>qps.
     bindE (calculate_composite_imbalance_score dcr gap qps 0.5 0.3 0.2) (\<lambda>cis_s.
       let result = set_column result ''composite_imbalance_score'' cis_s in
     bindE (column_of result ''composite_imbalance_score'') (\<lambda>cis_s.
     bindE (column_of result ''demand_capacity_ratio'') (\<lambda>dcr.
     bindE (classify_imbalance_severity cis_s dcr) (\<lambda>severity.
       Inr (result, severity))))))))))))))))"

text \<open>
  Input for evaluating the join: one hour, the nodegroups \<open>ng-a\<close> and \<open>ng-b\<close>; both have
  capacity and GPU telemetry, only \<open>ng-a\<close> has demand rows.
\<close>

definition cells_of :: "(string \<times> real) list \<Rightarrow> string \<Rightarrow> num" where
  "cells_of kvs = map_of kvs"

definition example_kueue :: table where
  "example_kueue =
     \<lparr> columns = [''pending_workloads'', ''admission_wait_time_seconds'',
                   ''admitted_active_workloads'', ''resource_usage''],
       rows = [\<lparr> timestamp = 1767225900, timestamp_hour = 1767225600, nodegroup = ''ng-a'',
                  cells = cells_of [(''pending_workloads'', 4), (''admission_wait_time_seconds'', 120),
                            (''admitted_active_workloads'', 6), (''resource_usage'', 6)] \<rparr>] \<rparr>"

definition example_nodepool :: table where
  "example_nodepool =
     \<lparr> columns = [''capacity_gpu_count'', ''allocatable_gpu_count''],
       rows = [\<lparr> timestamp = 1767225900, timestamp_hour = 1767225600, nodegroup = ''ng-a'',
                  cells = cells_of [(''capacity_gpu_count'', 8), (''allocatable_gpu_count'', 8)] \<rparr>,
               \<lparr> timestamp = 1767225900, timestamp_hour = 1767225600, nodegroup = ''ng-b'',
                  cells = cells_of [(''capacity_gpu_count'', 8), (''allocatable_gpu_count'', 8)] \<rparr>] \<rparr>"

definition example_telemetry :: table where
  "example_telemetry =
     \<lparr> columns = [''gpu_utilization_pct'', ''power_intensity_factor'', ''rfu_pct'',
                   ''efficiency_gap'', ''memory_pressure_pct''],
       rows = [\<lparr> timestamp = 1767225900, timestamp_hour = 1767225600, nodegroup = ''ng-a'',
                  cells = cells_of [(''gpu_utilization_pct'', 80),
                            (''power_intensity_factor'', 0.5), (''rfu_pct'', 50),
                            (''efficiency_gap'', 30), (''memory_pressure_pct'', 25)] \<rparr>,
               \<lparr> timestamp = 1767225900, timestamp_hour = 1767225600, nodegroup = ''ng-b'',
                  cells = cells_of [(''gpu_utilization_pct'', 60),
                            (''power_intensity_factor'', 0.75), (''rfu_pct'', 75),
                            (''efficiency_gap'', - 15), (''memory_pressure_pct'', 50)] \<rparr>] \<rparr>"

text \<open>
  The joined table of this input, with the demand cells of \<open>ng-b\<close> as a parameter, and the
  key of a raw row as \<^verbatim>\<open>aggregate_to_hourly\<close> groups it.
\<close>

definition example_joined :: "num \<Rightarrow> agg_table" where
  "example_joined missing =
     \<lparr> value_columns =
         [''pending_workloads'', ''admission_wait_time_seconds'',
          ''admitted_active_workloads'', ''resource_usage'',
          ''capacity_gpu_count'', ''allocatable_gpu_count'',
          ''gpu_utilization_pct'', ''power_intensity_factor'', ''rfu_pct'',
          ''efficiency_gap'', ''memory_pressure_pct''],
       agg_rows =
         [((1767225600, ''ng-a''),
           [(''pending_workloads'', Some 4), (''admission_wait_time_seconds'', Some 120),
            (''admitted_active_workloads'', Some 6), (''resource_usage'', Some 6),
            (''capacity_gpu_count'', Some 8), (''allocatable_gpu_count'', Some 8),
            (''gpu_utilization_pct'', Some 80), (''power_intensity_factor'', Some (1 / 2)),
            (''rfu_pct'', Some 50), (''efficiency_gap'', Some 30),
            (''memory_pressure_pct'', Some 25)]),
          ((1767225600, ''ng-b''),
           [(''pending_workloads'', missing), (''admission_wait_time_seconds'', missing),
            (''admitted_active_workloads'', missing), (''resource_usage'', missing),
            (''capacity_gpu_count'', Some 8), (''allocatable_gpu_count'', Some 8),
            (''gpu_utilization_pct'', Some 60), (''power_intensity_factor'', Some (3 / 4)),
            (''rfu_pct'', Some 75), (''efficiency_gap'', Some (- 15)),
            (''memory_pressure_pct'', Some 50)])] \<rparr>"

definition hour_key :: "row \<Rightarrow> key" where
  "hour_key r = (floor_hour (timestamp r), nodegroup r)"

definition unified_efficiency_columns :: "string list" where
  "unified_efficiency_columns = [''gpu_utilization_pct'', ''power_usage_watts'',
     ''power_intensity_factor'', ''rfu_pct'', ''efficiency_gap'', ''memory_used_mb'',
     ''gpu_temp_celsius'', ''tensor_active_pct'']"

text \<open>
  The scored table of the same input, and the columns \<^verbatim>\<open>build_unified_model\<close> reads.
\<close>

definition example_scored :: agg_table where
  "example_scored =
     \<lparr> value_columns =
         [''pending_workloads'', ''admission_wait_time_seconds'',
          ''admitted_active_workloads'', ''resource_usage'',
          ''capacity_gpu_count'', ''allocatable_gpu_count'',
          ''gpu_utilization_pct'', ''power_intensity_factor'', ''rfu_pct'',
          ''efficiency_gap'', ''memory_pressure_pct'',
          ''available_capacity'', ''demand_capacity_ratio'',
          ''queue_pressure_score'', ''composite_imbalance_score''],
       agg_rows =
         [((1767225600, ''ng-a''),
           [(''pending_workloads'', Some 4), (''admission_wait_time_seconds'', Some 120),
            (''admitted_active_workloads'', Some 6), (''resource_usage'', Some 6),
            (''capacity_gpu_count'', Some 8), (''allocatable_gpu_count'', Some 8),
            (''gpu_utilization_pct'', Some 80), (''power_intensity_factor'', Some (1 / 2)),
            (''rfu_pct'', Some 50), (''efficiency_gap'', Some 30),
            (''memory_pressure_pct'', Some 25),
            (''available_capacity'', Some 2),
            (''demand_capacity_ratio'', Some (4000000 / 2000001)),
            (''queue_pressure_score'', Some 0),
            (''composite_imbalance_score'', Some (3 / 10))]),
          ((1767225600, ''ng-b''),
           [(''pending_workloads'', None), (''admission_wait_time_seconds'', None),
            (''admitted_active_workloads'', None), (''resource_usage'', None),
            (''capacity_gpu_count'', Some 8), (''allocatable_gpu_count'', Some 8),
            (''gpu_utilization_pct'', Some 60), (''power_intensity_factor'', Some (3 / 4)),
            (''rfu_pct'', Some 75), (''efficiency_gap'', Some (- 15)),
            (''memory_pressure_pct'', Some 50),
            (''available_capacity'', None),
            (''demand_capacity_ratio'', None),
            (''queue_pressure_score'', None),
            (''composite_imbalance_score'', None)])] \<rparr>"

definition unified_inputs :: "table \<Rightarrow> table \<Rightarrow> table \<Rightarrow> bool" where
  "unified_inputs kueue_df dcgm_df nodepool_df \<longleftrightarrow>
     list_all (\<lambda>c. c \<in> set (columns kueue_df)) (demand_columns @ [''evicted_workloads_total''])
     \<and> list_all (\<lambda>c. c \<in> set (columns dcgm_df)) unified_efficiency_columns
     \<and> list_all (\<lambda>c. c \<in> set (columns nodepool_df))
           [''capacity_gpu_count'', ''allocatable_gpu_count'']"

text \<open>A table with the given columns and no rows.\<close>

definition no_rows :: "string list \<Rightarrow> table" where
  "no_rows cs = \<lparr> columns = cs, rows = [] \<rparr>"

section \<open>Results on the classifiers\<close>

lemma f_cmp_Some [simp]:
  "f_lt (Some x) c \<longleftrightarrow> x < c" "f_gt (Some x) c \<longleftrightarrow> c < x" "f_ge (Some x) c \<longleftrightarrow> c \<le> x"
  by (simp_all add: f_lt_def f_gt_def f_ge_def)

lemma f_cmp_None [simp]:
  "\<not> f_lt None c" "\<not> f_gt None c" "\<not> f_ge None c"
  by (simp_all add: f_lt_def f_gt_def f_ge_def)


lemma classify_first_match:
  "classify c d = first_match spec_severity_rules ''Healthy'' (c, d)"
  by (simp add: classify_def spec_severity_rules_def)

lemma map_zip_uncurry: "map (\<lambda>(a, b). f a b) (zip xs ys) = map (\<lambda>z. f (fst z) (snd z)) (zip xs ys)"
  by (simp add: case_prod_beta)




text \<open>
  Claim C4.  \<^verbatim>\<open>classify_imbalance_severity\<close> depends on (CIS, DCR) alone and is the
  ordered first-match rule list of the specification: \<open>Critical\<close> exactly when CIS > 0.7
  or DCR > 2.0; otherwise \<open>Warning\<close> exactly when CIS > 0.5 or DCR > 1.0; otherwise
  \<open>Moderate\<close> exactly when CIS > 0.3; otherwise \<open>Healthy\<close>.  (0.8, 0.5) and (0.3, 2.5) are
  \<open>Critical\<close>; (0.2, 0.3) is \<open>Healthy\<close>.
\<close>

theorem classify_imbalance_severity_rule_list:
  "classify c d = first_match spec_severity_rules ''Healthy'' (c, d)
   \<and> (length cs = length ds \<longrightarrow>
        classify_imbalance_severity cs ds =
          Inr (map (first_match spec_severity_rules ''Healthy'') (zip cs ds)))
   \<and> (classify (Some x) (Some y) = ''Critical'' \<longleftrightarrow> 0.7 < x \<or> 2.0 < y)
   \<and> (classify (Some x) (Some y) = ''Warning'' \<longleftrightarrow>
        \<not> (0.7 < x \<or> 2.0 < y) \<and> (0.5 < x \<or> 1.0 < y))
   \<and> (classify (Some x) (Some y) = ''Moderate'' \<longleftrightarrow>
        \<not> (0.7 < x \<or> 2.0 < y) \<and> \<not> (0.5 < x \<or> 1.0 < y) \<and> 0.3 < x)
   \<and> (classify (Some x) (Some y) = ''Healthy'' \<longleftrightarrow>
        \<not> (0.7 < x \<or> 2.0 < y) \<and> \<not> (0.5 < x \<or> 1.0 < y) \<and> \<not> 0.3 < x)
   \<and> classify_imbalance_severity [Some 0.8] [Some 0.5] = Inr [''Critical'']
   \<and> classify_imbalance_severity [Some 0.3] [Some 2.5] = Inr [''Critical'']
   \<and> classify_imbalance_severity [Some 0.2] [Some 0.3] = Inr [''Healthy'']"
proof (intro conjI impI)
  show "classify c d = first_match spec_severity_rules ''Healthy'' (c, d)"
    by (rule classify_first_match)
  show "classify_imbalance_severity cs ds =
          Inr (map (first_match spec_severity_rules ''Healthy'') (zip cs ds))"
    if "length cs = length ds"
    using that
    by (simp add: classify_imbalance_severity_def map_zip_uncurry classify_first_match)
  show "classify (Some x) (Some y) = ''Critical'' \<longleftrightarrow> 0.7 < x \<or> 2.0 < y"
    by (simp add: classify_def)
  show "classify (Some x) (Some y) = ''Warning'' \<longleftrightarrow>
        \<not> (0.7 < x \<or> 2.0 < y) \<and> (0.5 < x \<or> 1.0 < y)"
    by (simp add: classify_def)
  show "classify (Some x) (Some y) = ''Moderate'' \<longleftrightarrow>
        \<not> (0.7 < x \<or> 2.0 < y) \<and> \<not> (0.5 < x \<or> 1.0 < y) \<and> 0.3 < x"
    by (simp add: classify_def)
  show "classify (Some x) (Some y) = ''Healthy'' \<longleftrightarrow>
        \<not> (0.7 < x \<or> 2.0 < y) \<and> \<not> (0.5 < x \<or> 1.0 < y) \<and> \<not> 0.3 < x"
    by (simp add: classify_def)
  show "classify_imbalance_severity [Some 0.8] [Some 0.5] = Inr [''Critical'']"
    by (simp add: classify_imbalance_severity_def classify_def)
  show "classify_imbalance_severity [Some 0.3] [Some 2.5] = Inr [''Critical'']"
    by (simp add: classify_imbalance_severity_def classify_def)
  show "classify_imbalance_severity [Some 0.2] [Some 0.3] = Inr [''Healthy'']"
    by (simp add: classify_imbalance_severity_def classify_def)
qed

theorem classify_imbalance_severity_rule_list_witness:
  "length [Some 0.6, None, Some 0.4] = length [Some 0.2, Some 3, None]
   \<and> classify_imbalance_severity [Some 0.6, None, Some 0.4] [Some 0.2, Some 3, None]
       = Inr [''Warning'', ''Critical'', ''Moderate'']"
  using classify_imbalance_severity_rule_list
    [where cs = "[Some 0.6, None, Some 0.4]" and ds = "[Some 0.2, Some 3, None]"]
  by (simp add: spec_severity_rules_def)

section \<open>Results on normalization and the scores\<close>

lemma valid_simps [simp]:
  "valid [] = []" "valid (Some x # s) = x # valid s" "valid (None # s) = valid s"
  by (simp_all add: valid_def)

lemma valid_map_Some [simp]: "valid (map Some xs) = xs"
  by (induction xs) simp_all

lemma fold_min_Min: "fold min xs (x::real) = Min (insert x (set xs))"
  using Min.set_eq_fold [of x xs] by simp

lemma fold_max_Max: "fold max xs (x::real) = Max (insert x (set xs))"
  using Max.set_eq_fold [of x xs] by simp

lemma nanmin_map_Some: "xs \<noteq> [] \<Longrightarrow> nanmin (map Some xs) = Some (Min (set xs))"
  by (cases xs) (simp_all add: nanmin_def fold_min_Min)

lemma nanmax_map_Some: "xs \<noteq> [] \<Longrightarrow> nanmax (map Some xs) = Some (Max (set xs))"
  by (cases xs) (simp_all add: nanmax_def fold_max_Max)

lemma align2_same_length:
  "length xs = length ys \<Longrightarrow> align2 f xs ys = map (\<lambda>z. f (fst z) (snd z)) (zip xs ys)"
  by (induction xs ys rule: list_induct2) simp_all

lemma length_align2_same: "length xs = length ys \<Longrightarrow> length (align2 f xs ys) = length xs"
  by (simp add: align2_same_length)

lemma normalize_minmax_global:
  "xs \<noteq> [] \<Longrightarrow>
     normalize_series (map Some xs) ''minmax'' None = Inr (map (\<lambda>x. Some (unit_scale xs x)) xs)"
  by (simp add: normalize_series_def nanmin_map_Some nanmax_map_Some f_sub_def f_div_def
      replace_0_1_def unit_scale_def Let_def comp_def)

lemma unit_scale_bounds:
  assumes "x \<in> set xs"
  shows "0 \<le> unit_scale xs x" "unit_scale xs x \<le> 1"
proof -
  have lo: "Min (set xs) \<le> x" and hi: "x \<le> Max (set xs)"
    using assms by simp_all
  show "0 \<le> unit_scale xs x"
    using lo hi by (simp add: unit_scale_def)
  show "unit_scale xs x \<le> 1"
    using lo hi by (simp add: unit_scale_def divide_le_eq)
qed

lemma unit_scale_eq_1:
  assumes "x \<in> set xs"
  shows "unit_scale xs x = 1 \<longleftrightarrow> x = Max (set xs) \<and> Min (set xs) < Max (set xs)"
proof -
  have lo: "Min (set xs) \<le> x" and hi: "x \<le> Max (set xs)"
    using assms by simp_all
  show ?thesis
  proof (cases "Max (set xs) - Min (set xs) = 0")
    case True
    with lo hi show ?thesis by (simp add: unit_scale_def)
  next
    case False
    with lo hi have "Min (set xs) < Max (set xs)" by linarith
    with False show ?thesis by (auto simp: unit_scale_def)
  qed
qed

lemma qps_closed_form:
  assumes "length ps = length ws"
  shows "calculate_queue_pressure_score (map Some ps) (map Some ws) pw ww =
     Inr (map (\<lambda>z. Some (pw * unit_scale ps (fst z) + ww * unit_scale ws (snd z))) (zip ps ws))"
proof (cases "ps = []")
  case True
  with assms show ?thesis
    by (simp add: calculate_queue_pressure_score_def bindE_def normalize_series_def)
next
  case False
  with assms have "ws \<noteq> []" by auto
  with False assms show ?thesis
    by (simp add: calculate_queue_pressure_score_def bindE_def normalize_minmax_global
        align2_same_length zip_map_map f_mul_def f_add_def case_prod_beta)
qed

lemma weighted_one:
  fixes a b :: real
  assumes "0 \<le> a" "a \<le> 1" "0 \<le> b" "b \<le> 1"
  shows "0 \<le> 0.6 * a + 0.4 * b" "0.6 * a + 0.4 * b \<le> 1"
    "0.6 * a + 0.4 * b = 1 \<longleftrightarrow> a = 1 \<and> b = 1"
  using assms by auto

lemma rolling_const:
  assumes "0 < w" "\<And>k. 0 < k \<Longrightarrow> agg (replicate k (Some c)) = Some c"
  shows "rolling agg w (replicate n (Some c)) = replicate n (Some c)"
proof (rule nth_equalityI)
  show "length (rolling agg w (replicate n (Some c))) = length (replicate n (Some c))"
    by (simp add: rolling_def)
next
  fix i assume "i < length (rolling agg w (replicate n (Some c)))"
  then have i: "i < n" by (simp add: rolling_def)
  have win: "drop (Suc i - w) (take (Suc i) (replicate n (Some c)))
      = replicate (min (Suc i) n - (Suc i - w)) (Some c)"
    by (simp only: take_replicate drop_replicate)
  have "0 < min (Suc i) n - (Suc i - w)"
    using i assms(1) by (simp add: min_def)
  then have "agg (drop (Suc i - w) (take (Suc i) (replicate n (Some c)))) = Some c"
    unfolding win by (rule assms(2))
  with i show "rolling agg w (replicate n (Some c)) ! i = replicate n (Some c) ! i"
    by (simp add: rolling_def del: take_replicate drop_replicate replicate_Suc)
qed

lemma valid_replicate [simp]: "valid (replicate k (Some c)) = replicate k c"
  by (induction k) simp_all

lemma nanmin_replicate: "0 < k \<Longrightarrow> nanmin (replicate k (Some c)) = Some c"
  by (cases k) (simp_all add: nanmin_def fold_min_Min set_replicate_conv_if)

lemma nanmax_replicate: "0 < k \<Longrightarrow> nanmax (replicate k (Some c)) = Some c"
  by (cases k) (simp_all add: nanmax_def fold_max_Max set_replicate_conv_if)

lemma align2_replicate:
  "align2 f (replicate n a) (replicate n b) = replicate n (f a b)"
  by (induction n) simp_all

lemma normalize_global_constant:
  assumes "window = None \<or> window = Some 0"
  shows "normalize_series (replicate n (Some c)) ''minmax'' window = Inr (replicate n (Some 0))"
proof (cases "n = 0")
  case True
  with assms show ?thesis by (auto simp add: normalize_series_def)
next
  case False
  then have n: "0 < n" by simp
  from assms show ?thesis
    by (auto simp add: normalize_series_def nanmin_replicate [OF n] nanmax_replicate [OF n]
        f_sub_def f_div_def replace_0_1_def)
qed

lemma normalize_rolling_constant:
  assumes "0 < k"
  shows "normalize_series (replicate n (Some c)) ''minmax'' (Some k) = Inr (replicate n (Some 0))"
proof -
  from assms have w: "0 < nat k" by simp
  show ?thesis
    using assms
    by (simp add: normalize_series_def rolling_const [OF w] nanmin_replicate nanmax_replicate
        align2_replicate f_sub_def f_div_def replace_0_1_def)
qed

lemma dcr_nth:
  assumes "length ps = length cs" "i < length cs" "cs ! i + eps \<noteq> 0"
  shows "calculate_demand_capacity_ratio (map Some ps) (map Some cs) eps ! i
     = Some (ps ! i / (cs ! i + eps))"
  using assms
  by (simp add: calculate_demand_capacity_ratio_def align2_same_length f_div_def f_add_def)

text \<open>
  Claim C6 (as stated).  The percentile mode is a supported mode, and there a constant
  Series does not normalize to 0: every element is tied, shares the mean rank
  \<open>(n + 1) / 2\<close>, and gets \<open>(n + 1) / (2 n)\<close>; for two equal numbers that is 3/4.
\<close>

theorem normalize_series_percentile_counterexample:
  "normalize_series [Some 5, Some 5] ''percentile'' None = Inr [Some (3 / 4), Some (3 / 4)]"
  by (simp add: normalize_series_def rank_pct_def)

text \<open>
  Claim C6 (amended).  In the min-max mode, for every constant-valued Series of any
  length, without a window or with any window pandas accepts (zero or more),
  \<^verbatim>\<open>normalize_series\<close> does not raise and returns the number 0 at every position, never
  \<^verbatim>\<open>NaN\<close>.
\<close>

theorem normalize_series_constant:
  assumes "window = None \<or> (\<exists>k. window = Some k \<and> 0 \<le> k)"
  shows "normalize_series (replicate n (Some c)) ''minmax'' window = Inr (replicate n (Some 0))"
proof (cases window)
  case None
  then show ?thesis by (simp add: normalize_global_constant)
next
  case (Some k)
  with assms have "k = 0 \<or> 0 < k" by auto
  with Some show ?thesis
    by (auto simp: normalize_global_constant normalize_rolling_constant)
qed

theorem normalize_series_constant_witness:
  "(Some 2 = None \<or> (\<exists>k::int. Some 2 = Some k \<and> 0 \<le> k))
   \<and> normalize_series [Some 50, Some 50, Some 50] ''minmax'' (Some 2) = Inr [Some 0, Some 0, Some 0]
   \<and> normalize_series [Some 50, Some 50, Some 50] ''minmax'' None = Inr [Some 0, Some 0, Some 0]"
  using normalize_series_constant [of "Some 2" 3 50] normalize_series_constant [of None 3 50]
  by (simp add: numeral_3_eq_3)

text \<open>
  Claim C5 (as stated).  With the constant Series \<open>[5, 5]\<close> of pending workloads and
  the wait times \<open>[1, 2]\<close>, the second element attains the maximum of both Series
  (5 and 2), yet its score is 0.4, not 1: a constant Series normalizes to 0.  And an
  element whose pending count is missing has the score \<^verbatim>\<open>NaN\<close>, which is not in [0, 1].
\<close>

theorem queue_pressure_score_counterexample:
  "calculate_queue_pressure_score [Some 5, Some 5] [Some 1, Some 2] 0.6 0.4
     = Inr [Some 0, Some 0.4]
   \<and> nanmax [Some 5, Some 5] = Some 5 \<and> nanmax [Some 1, Some 2] = Some 2
   \<and> calculate_queue_pressure_score [None, Some 5] [Some 1, Some 2] 0.6 0.4
     = Inr [None, Some 0.4]"
  by (simp add: calculate_queue_pressure_score_def bindE_def normalize_series_def nanmin_def
      nanmax_def replace_0_1_def f_sub_def f_div_def f_mul_def f_add_def)

text \<open>
  Claim C5 (amended).  For Series of pending workloads and wait times of equal length
  and without missing values, the queue pressure score with the weights 0.6 and 0.4 is a
  number in [0, 1] at every element, and it equals 1 at an element exactly when both
  inputs attain the maximum of their Series there and neither Series is constant.
\<close>

theorem queue_pressure_score_bounds:
  assumes "length ps = length ws"
  shows "\<exists>qs. calculate_queue_pressure_score (map Some ps) (map Some ws) 0.6 0.4 = Inr (map Some qs)
     \<and> length qs = length ps
     \<and> (\<forall>i<length ps. 0 \<le> qs ! i \<and> qs ! i \<le> 1
          \<and> (qs ! i = 1 \<longleftrightarrow>
               ps ! i = Max (set ps) \<and> Min (set ps) < Max (set ps)
               \<and> ws ! i = Max (set ws) \<and> Min (set ws) < Max (set ws)))"
proof -
  define qs where "qs = map (\<lambda>z. 0.6 * unit_scale ps (fst z) + 0.4 * unit_scale ws (snd z)) (zip ps ws)"
  have res: "calculate_queue_pressure_score (map Some ps) (map Some ws) 0.6 0.4 = Inr (map Some qs)"
    using assms by (simp add: qps_closed_form qs_def comp_def)
  have len: "length qs = length ps"
    using assms by (simp add: qs_def)
  have "0 \<le> qs ! i \<and> qs ! i \<le> 1
          \<and> (qs ! i = 1 \<longleftrightarrow>
               ps ! i = Max (set ps) \<and> Min (set ps) < Max (set ps)
               \<and> ws ! i = Max (set ws) \<and> Min (set ws) < Max (set ws))" if "i < length ps" for i
  proof -
    from that assms have iw: "i < length ws" by simp
    have q: "qs ! i = 0.6 * unit_scale ps (ps ! i) + 0.4 * unit_scale ws (ws ! i)"
      using that iw by (simp add: qs_def)
    have p_in: "ps ! i \<in> set ps" and w_in: "ws ! i \<in> set ws"
      using that iw by simp_all
    note bp = unit_scale_bounds [OF p_in] and bw = unit_scale_bounds [OF w_in]
    show ?thesis
      unfolding q
      using weighted_one [OF bp bw] unit_scale_eq_1 [OF p_in] unit_scale_eq_1 [OF w_in]
      by blast
  qed
  with res len show ?thesis by blast
qed

theorem queue_pressure_score_bounds_witness:
  "length [0, 50, 100 :: real] = length [0, 150, 300 :: real]
   \<and> (\<exists>qs. calculate_queue_pressure_score [Some 0, Some 50, Some 100]
               [Some 0, Some 150, Some 300] 0.6 0.4 = Inr (map Some qs)
        \<and> length qs = 3 \<and> qs ! 0 \<noteq> 1 \<and> qs ! 1 \<noteq> 1 \<and> qs ! 2 = 1)"
proof -
  let ?ps = "[0, 50, 100 :: real]" and ?ws = "[0, 150, 300 :: real]"
  from queue_pressure_score_bounds [of ?ps ?ws]
  obtain qs where qs: "calculate_queue_pressure_score (map Some ?ps) (map Some ?ws) 0.6 0.4
        = Inr (map Some qs)"
      "length qs = length ?ps"
      "\<forall>i<length ?ps. 0 \<le> qs ! i \<and> qs ! i \<le> 1
          \<and> (qs ! i = 1 \<longleftrightarrow>
               ?ps ! i = Max (set ?ps) \<and> Min (set ?ps) < Max (set ?ps)
               \<and> ?ws ! i = Max (set ?ws) \<and> Min (set ?ws) < Max (set ?ws))"
    by auto
  from qs(3) have "qs ! 0 \<noteq> 1" "qs ! 1 \<noteq> 1" "qs ! 2 = 1"
    by simp_all
  with qs(1,2) show ?thesis by auto
qed

text \<open>
  Claim C7.  For a fixed \<open>\<epsilon> > 0\<close> and non-negative inputs, the demand-capacity ratio
  \<open>pending / (available_capacity + \<epsilon>)\<close> is a number at every element; it does not
  decrease when pending grows with the capacity held fixed (and increases strictly when
  pending does), and it does not increase when the capacity grows with pending held
  fixed (and decreases strictly when the capacity grows and pending is positive).
\<close>

theorem demand_capacity_ratio_monotone:
  assumes "0 < eps"
    and "length ps = length cs" and "length ps' = length cs" and "length cs' = length cs"
    and "i < length cs"
    and "0 \<le> ps ! i" and "ps ! i \<le> ps' ! i"
    and "0 \<le> cs ! i" and "cs ! i \<le> cs' ! i"
  shows "\<exists>x y z.
      calculate_demand_capacity_ratio (map Some ps) (map Some cs) eps ! i = Some x
    \<and> calculate_demand_capacity_ratio (map Some ps') (map Some cs) eps ! i = Some y
    \<and> calculate_demand_capacity_ratio (map Some ps) (map Some cs') eps ! i = Some z
    \<and> x \<le> y \<and> (ps ! i < ps' ! i \<longrightarrow> x < y)
    \<and> z \<le> x \<and> (cs ! i < cs' ! i \<and> 0 < ps ! i \<longrightarrow> z < x)"
proof -
  have pos: "0 < cs ! i + eps" and pos': "0 < cs' ! i + eps"
    using assms by linarith+
  have x: "calculate_demand_capacity_ratio (map Some ps) (map Some cs) eps ! i
      = Some (ps ! i / (cs ! i + eps))"
    using assms pos by (intro dcr_nth) simp_all
  have y: "calculate_demand_capacity_ratio (map Some ps') (map Some cs) eps ! i
      = Some (ps' ! i / (cs ! i + eps))"
    using assms pos by (intro dcr_nth) simp_all
  have z: "calculate_demand_capacity_ratio (map Some ps) (map Some cs') eps ! i
      = Some (ps ! i / (cs' ! i + eps))"
    using assms pos' by (intro dcr_nth) simp_all
  have 1: "ps ! i / (cs ! i + eps) \<le> ps' ! i / (cs ! i + eps)"
    using assms pos by (simp add: divide_right_mono)
  have 2: "ps ! i / (cs ! i + eps) < ps' ! i / (cs ! i + eps)" if "ps ! i < ps' ! i"
    using that pos by (simp add: divide_strict_right_mono)
  have 3: "ps ! i / (cs' ! i + eps) \<le> ps ! i / (cs ! i + eps)"
    using assms pos by (intro divide_left_mono) (simp_all add: pos')
  have 4: "ps ! i / (cs' ! i + eps) < ps ! i / (cs ! i + eps)"
    if "cs ! i < cs' ! i" "0 < ps ! i"
    using that pos pos' by (intro divide_strict_left_mono) simp_all
  from x y z 1 2 3 4 show ?thesis by blast
qed

theorem demand_capacity_ratio_monotone_witness:
  "(0::real) < epsilon_default
   \<and> (\<exists>x y z.
      calculate_demand_capacity_ratio [Some 10] [Some 10] epsilon_default ! 0 = Some x
    \<and> calculate_demand_capacity_ratio [Some 20] [Some 10] epsilon_default ! 0 = Some y
    \<and> calculate_demand_capacity_ratio [Some 10] [Some 20] epsilon_default ! 0 = Some z
    \<and> x \<le> y \<and> x < y \<and> z \<le> x \<and> z < x)"
proof -
  have e: "(0::real) < epsilon_default" by (simp add: epsilon_default_def)
  from demand_capacity_ratio_monotone
    [OF e, where ps = "[10]" and ps' = "[20]" and cs = "[10]" and cs' = "[20]" and i = 0]
  show ?thesis using e by simp
qed

section \<open>Results on the efficiency calculator\<close>

lemma bindE_simps [simp]: "bindE (Inl e) f = Inl e" "bindE (Inr x) f = f x"
  by (simp_all add: bindE_def)

lemma bindE_weak_cong: "m = m' \<Longrightarrow> bindE m f = bindE m' f"
  by simp

lemma getcol_simps [simp]:
  "df c = Some col \<Longrightarrow> getcol df c = Inr col" "df c = None \<Longrightarrow> getcol df c = Inl (KeyError c)"
  by (simp_all add: getcol_def)

lemma as_num_simps [simp]:
  "as_num (NumCol s) = Inr s"
  "as_num (StrCol ks) = Inl (TypeError ''unsupported operand type'')"
  "as_num (TimeCol ts) = Inl (TypeError ''unsupported operand type'')"
  by (simp_all add: as_num_def)

lemma spec_get_extend:
  assumes "table m = None"
  shows "spec_get (table(m \<mapsto> default_entry)) ''max_power'' 400 = spec_get table ''max_power'' 400"
    and "spec_get (table(m \<mapsto> default_entry)) ''achievable_tflops'' 100
      = spec_get table ''achievable_tflops'' 100"
  using assms by (auto simp: spec_get_def default_entry_def fun_eq_iff split: option.splits)

lemma spec_get_unknown: "table m = None \<Longrightarrow> spec_get table field dflt (Some m) = Some dflt"
  by (simp add: spec_get_def)

lemma length_align2 [simp]: "length (align2 f xs ys) = max (length xs) (length ys)"
  by (induction f xs ys rule: align2.induct) simp_all

lemma align2_nth:
  "i < length xs \<Longrightarrow> i < length ys \<Longrightarrow> align2 f xs ys ! i = f (xs ! i) (ys ! i)"
proof (induction f xs ys arbitrary: i rule: align2.induct)
  case (4 f x xs y ys)
  then show ?case by (cases i) simp_all
qed simp_all

lemma assign_other: "c \<noteq> name \<Longrightarrow> fst (assign name f st) c = fst st c"
  by (auto simp: assign_def split: prod.splits option.splits sum.splits)

lemma assign_ok:
  "f df = Inr col \<Longrightarrow> assign name f (df, None) = (df(name \<mapsto> col), None)"
  by (simp add: assign_def)

lemma assign_dom: "dom (fst (assign name f st)) \<subseteq> insert name (dom (fst st))"
  by (auto simp: assign_def split: prod.splits option.splits sum.splits if_splits)

lemma columns_frame:
  assumes "c \<notin> set derived_columns"
  shows "fst (add_efficiency_metrics_columns table df) c = df c"
  using assms
  by (simp add: add_efficiency_metrics_columns_def derived_columns_def assign_other)

lemma is_numD: "is_num df c \<Longrightarrow> \<exists>xs. df c = Some (NumCol xs)"
  by (auto simp: is_num_def split: option.splits column.splits)

lemma length_as_keys [simp]: "length (as_keys col) = col_len col"
  by (simp add: as_keys_def col_len_def split: column.splits)

lemma frame_rowsD: "frame_rows df n \<Longrightarrow> df c = Some col \<Longrightarrow> col_len col = n"
  by (auto simp: frame_rows_def dom_def)

lemma classify_efficiency_ok:
  "length us \<le> length ps \<Longrightarrow>
     classify_efficiency us ps = Inr (map (\<lambda>(u, p). classify_row u p) (zip us ps))"
  by (simp add: classify_efficiency_def)

lemma columns_ok:
  assumes "dcgm_columns df" and "frame_rows df n"
  shows "snd (add_efficiency_metrics_columns table df) = None"
    and "dom (fst (add_efficiency_metrics_columns table df)) = dom df \<union> set derived_columns"
proof -
  from assms(1) obtain mc ws us um fm where
    c: "df ''gpu_model'' = Some mc" "df ''power_usage_watts'' = Some (NumCol ws)"
       "df ''gpu_utilization_pct'' = Some (NumCol us)" "df ''memory_used_mb'' = Some (NumCol um)"
       "df ''memory_free_mb'' = Some (NumCol fm)"
    unfolding dcgm_columns_def by (auto dest!: is_numD)
  from frame_rowsD [OF assms(2)] c have l: "col_len mc = n" "length ws = n" "length us = n"
    by (force simp: col_len_def)+
  define pif where "pif = map (f_clip (Some 0) (Some 1))
      (align2 f_div ws (map (spec_get table ''max_power'' 400) (as_keys mc)))"
  have lp: "length us \<le> length pif" using l by (simp add: pif_def)
  have pif: "calculate_power_intensity_factor_with table df ''power_usage_watts'' ''gpu_model''
      = Inr pif"
    using c by (simp add: calculate_power_intensity_factor_with_def pif_def)
  note defs = add_efficiency_metrics_columns_def assign_def pif num_column_def
        calculate_realized_tflops_with_def calculate_rfu_with_def classify_efficiency_ok
  show "snd (add_efficiency_metrics_columns table df) = None"
    using c lp by (simp add: defs)
  show "dom (fst (add_efficiency_metrics_columns table df)) = dom df \<union> set derived_columns"
    using c lp by (simp add: defs derived_columns_def insert_commute)
qed

lemma example_dcgm_columns: "dcgm_columns example_dcgm"
  by (simp add: dcgm_columns_def example_dcgm_def is_num_def)

lemma example_dcgm_rows: "frame_rows example_dcgm 2"
  by (simp add: frame_rows_def example_dcgm_def col_len_def)

lemma a100_columns:
  "a100 w ''gpu_model'' = Some (StrCol [Some ''NVIDIA A100-SXM4-40GB''])"
  "a100 w ''power_usage_watts'' = Some (NumCol [Some w])"
  "a100 w ''gpu_utilization_pct'' = None"
  by (simp_all add: a100_def)

lemma a100_spec:
  "spec_get GPU_SPECS ''max_power'' 400 (Some ''NVIDIA A100-SXM4-40GB'') = Some 400"
  "spec_get GPU_SPECS ''achievable_tflops'' 100 (Some ''NVIDIA A100-SXM4-40GB'') = Some 102"
  by (simp_all add: spec_get_def GPU_SPECS_def)

lemma a100_pif:
  "calculate_power_intensity_factor (a100 w) ''power_usage_watts'' ''gpu_model''
     = Inr [f_clip (Some 0) (Some 1) (f_div (Some w) (Some 400))]"
  by (simp add: calculate_power_intensity_factor_def calculate_power_intensity_factor_with_def
      a100_def as_keys_def a100_spec)

lemma a100_realized:
  "calculate_realized_tflops (a100 w) [p] ''gpu_model'' = Inr [f_mul (Some 102) p]"
  by (simp add: calculate_realized_tflops_def calculate_realized_tflops_with_def
      a100_def as_keys_def a100_spec)

lemma a100_rfu:
  "calculate_rfu (a100 w) [r] ''gpu_model''
     = Inr [f_clip (Some 0) (Some 100) (f_mul (f_div r (Some 102)) (Some 100))]"
  by (simp add: calculate_rfu_def calculate_rfu_with_def a100_def as_keys_def a100_spec)

text \<open>
  Claim C2 (as stated).  At power 400 the A100 row has RFU 100, so with utilization 80
  the efficiency gap of the first case is \<open>80 - 100 = -20\<close>, not 30.
\<close>

theorem efficiency_gap_first_case_counterexample:
  "calculate_rfu (a100 400) [Some 102] ''gpu_model'' = Inr [Some 100]
   \<and> calculate_efficiency_gap [Some 80] [Some 100] = [Some (- 20)]
   \<and> calculate_efficiency_gap [Some 80] [Some 100] \<noteq> [Some 30]"
  by (simp add: a100_rfu calculate_efficiency_gap_def f_clip_def f_mul_def f_div_def f_sub_def)

text \<open>
  Claim C2 (amended).  With the model specification \<open>max_power = 400\<close>,
  \<open>achievable_tflops = 102\<close>: power 400 gives PIF 1, realized throughput 102 and RFU 100;
  power 200 gives PIF 0.5, realized throughput 51 and RFU 50; with utilization 80 the
  efficiency gap (utilization minus RFU) is \<open>-20\<close> in the first case and 30 in the second.
\<close>

theorem a100_scenario:
  "spec_get GPU_SPECS ''max_power'' 400 (Some ''NVIDIA A100-SXM4-40GB'') = Some 400
   \<and> spec_get GPU_SPECS ''achievable_tflops'' 100 (Some ''NVIDIA A100-SXM4-40GB'') = Some 102
   \<and> calculate_power_intensity_factor (a100 400) ''power_usage_watts'' ''gpu_model'' = Inr [Some 1]
   \<and> calculate_realized_tflops (a100 400) [Some 1] ''gpu_model'' = Inr [Some 102]
   \<and> calculate_rfu (a100 400) [Some 102] ''gpu_model'' = Inr [Some 100]
   \<and> calculate_efficiency_gap [Some 80] [Some 100] = [Some (- 20)]
   \<and> calculate_power_intensity_factor (a100 200) ''power_usage_watts'' ''gpu_model''
       = Inr [Some 0.5]
   \<and> calculate_realized_tflops (a100 200) [Some 0.5] ''gpu_model'' = Inr [Some 51]
   \<and> calculate_rfu (a100 200) [Some 51] ''gpu_model'' = Inr [Some 50]
   \<and> calculate_efficiency_gap [Some 80] [Some 50] = [Some 30]"
  by (simp add: a100_spec a100_pif a100_realized a100_rfu calculate_efficiency_gap_def
      f_clip_def f_mul_def f_div_def f_sub_def)

text \<open>
  Claim C8.  For a sample whose \<^verbatim>\<open>gpu_model\<close> is not in \<open>GPU_SPECS\<close>, in a frame that has
  the model column and a numeric power column, the calculators do not raise: PIF is
  \<open>clip(power / 400, 0, 1)\<close> and the realized throughput is \<open>100 \<times> PIF\<close>, and the whole
  result is the one computed with the table extended by that model at
  \<open>max_power = 400\<close>, \<open>achievable_tflops = 100\<close>.
\<close>

theorem unknown_model_default_spec:
  assumes "df model_col = Some models" and "df power_col = Some (NumCol watts)"
    and "length (as_keys models) = length watts" and "i < length watts"
    and "as_keys models ! i = Some m" and "GPU_SPECS m = None"
  shows "\<exists>pif realized.
      calculate_power_intensity_factor df power_col model_col = Inr pif
    \<and> calculate_realized_tflops df pif model_col = Inr realized
    \<and> pif ! i = f_clip (Some 0) (Some 1) (f_div (watts ! i) (Some 400))
    \<and> realized ! i = f_mul (Some 100) (pif ! i)
    \<and> calculate_power_intensity_factor_with (GPU_SPECS(m \<mapsto> default_entry)) df power_col model_col
        = Inr pif
    \<and> calculate_realized_tflops_with (GPU_SPECS(m \<mapsto> default_entry)) df pif model_col
        = Inr realized"
proof -
  define pif where "pif = map (f_clip (Some 0) (Some 1))
      (align2 f_div watts (map (spec_get GPU_SPECS ''max_power'' 400) (as_keys models)))"
  define realized where "realized =
      align2 f_mul (map (spec_get GPU_SPECS ''achievable_tflops'' 100) (as_keys models)) pif"
  have len: "length pif = length watts"
    using assms(3) by (simp add: pif_def)
  have 1: "calculate_power_intensity_factor df power_col model_col = Inr pif"
    using assms(1,2)
    by (simp add: calculate_power_intensity_factor_def calculate_power_intensity_factor_with_def
        pif_def)
  have 2: "calculate_realized_tflops df pif model_col = Inr realized"
    using assms(1)
    by (simp add: calculate_realized_tflops_def calculate_realized_tflops_with_def realized_def)
  have 3: "pif ! i = f_clip (Some 0) (Some 1) (f_div (watts ! i) (Some 400))"
    using assms(3-6) by (simp add: pif_def align2_nth spec_get_unknown)
  have 4: "realized ! i = f_mul (Some 100) (pif ! i)"
    using assms(3-6) len by (simp add: realized_def align2_nth spec_get_unknown)
  have 5: "calculate_power_intensity_factor_with (GPU_SPECS(m \<mapsto> default_entry)) df power_col
      model_col = Inr pif"
    using assms(1,2,6)
    by (simp add: calculate_power_intensity_factor_with_def pif_def spec_get_extend)
  have 6: "calculate_realized_tflops_with (GPU_SPECS(m \<mapsto> default_entry)) df pif model_col
      = Inr realized"
    using assms(1,6)
    by (simp add: calculate_realized_tflops_with_def realized_def spec_get_extend)
  from 1 2 3 4 5 6 show ?thesis by blast
qed

theorem unknown_model_default_spec_witness:
  "example_dcgm ''gpu_model'' = Some (StrCol [Some ''NVIDIA A100-SXM4-40GB'', Some ''uncatalogued''])
   \<and> example_dcgm ''power_usage_watts'' = Some (NumCol [Some 400, Some 200])
   \<and> GPU_SPECS ''uncatalogued'' = None
   \<and> (\<exists>pif realized.
        calculate_power_intensity_factor example_dcgm ''power_usage_watts'' ''gpu_model'' = Inr pif
      \<and> calculate_realized_tflops example_dcgm pif ''gpu_model'' = Inr realized
      \<and> pif ! 1 = Some (1 / 2) \<and> realized ! 1 = Some 50)"
proof -
  have m: "example_dcgm ''gpu_model''
      = Some (StrCol [Some ''NVIDIA A100-SXM4-40GB'', Some ''uncatalogued''])"
    and w: "example_dcgm ''power_usage_watts'' = Some (NumCol [Some 400, Some 200])"
    by (simp_all add: example_dcgm_def)
  have u: "GPU_SPECS ''uncatalogued'' = None"
    by (simp add: GPU_SPECS_def)
  from unknown_model_default_spec [OF m w _ _ _ u, of 1]
  obtain pif realized where
    "calculate_power_intensity_factor example_dcgm ''power_usage_watts'' ''gpu_model'' = Inr pif"
    "calculate_realized_tflops example_dcgm pif ''gpu_model'' = Inr realized"
    "pif ! 1 = f_clip (Some 0) (Some 1) (f_div ([Some 400, Some 200] ! 1) (Some 400))"
    "realized ! 1 = f_mul (Some 100) (pif ! 1)"
    by (auto simp: as_keys_def)
  moreover from this have "pif ! 1 = Some (1 / 2)" "realized ! 1 = Some 50"
    by (simp_all add: f_clip_def f_div_def f_mul_def)
  ultimately show ?thesis using m w u by blast
qed

text \<open>
  Claim C10 (as stated).  On a DataFrame that lacks a column the calculator reads, the
  call raises \<^verbatim>\<open>KeyError\<close> and returns no table.  The frame of the PIF tests, which has
  the model and the power only, gets three columns on the copy and fails at the
  efficiency gap, for want of the utilization.
\<close>

theorem add_efficiency_metrics_missing_columns_counterexample:
  "add_efficiency_metrics [a100 400] 0 False
     = ([a100 400,
         (a100 400)(''power_intensity_factor'' \<mapsto> NumCol [Some 1],
                    ''realized_tflops'' \<mapsto> NumCol [Some 102],
                    ''rfu_pct'' \<mapsto> NumCol [Some 100])],
        Inl (KeyError ''gpu_utilization_pct''))"
  by (simp add: add_efficiency_metrics_def add_efficiency_metrics_with_def df_copy_def
      add_efficiency_metrics_columns_def assign_def calculate_power_intensity_factor_with_def
      calculate_realized_tflops_with_def calculate_rfu_with_def num_column_def a100_columns
      a100_spec as_keys_def f_div_def f_mul_def f_clip_def cong: bindE_weak_cong)

text \<open>
  Claim C10 (amended).  \<^verbatim>\<open>add_efficiency_metrics\<close> called with \<^verbatim>\<open>inplace=False\<close> leaves its
  argument, and every other frame there was, unchanged, whether it returns or raises.
  When the argument has the model column and the four measurements as numeric columns,
  the call returns a new frame whose columns are those of the argument and the six
  derived ones, every column other than the six being the argument's.
\<close>

theorem add_efficiency_metrics_copy:
  assumes "r < length h"
  shows "case add_efficiency_metrics h r False of (h', res) \<Rightarrow>
      take (length h) h' = h \<and> h' ! r = h ! r
    \<and> (dcgm_columns (h ! r) \<and> frame_rows (h ! r) n \<longrightarrow>
         res = Inr (length h) \<and> length h' = Suc (length h)
       \<and> dom (h' ! length h) = dom (h ! r) \<union> set derived_columns
       \<and> (\<forall>c. c \<notin> set derived_columns \<longrightarrow> (h' ! length h) c = (h ! r) c))"
proof -
  obtain f err where b: "add_efficiency_metrics_columns GPU_SPECS (h ! r) = (f, err)"
    by (cases "add_efficiency_metrics_columns GPU_SPECS (h ! r)")
  have run: "add_efficiency_metrics h r False
      = (h @ [f], case err of None \<Rightarrow> Inr (length h) | Some e \<Rightarrow> Inl e)"
    by (simp add: add_efficiency_metrics_def add_efficiency_metrics_with_def df_copy_def b)
  have keep: "take (length h) (h @ [f]) = h" "(h @ [f]) ! r = h ! r"
    using assms by (simp_all add: nth_append)
  have frame: "f c = (h ! r) c" if "c \<notin> set derived_columns" for c
    using columns_frame [OF that, of GPU_SPECS "h ! r"] b by simp
  have ok: "err = None \<and> dom f = dom (h ! r) \<union> set derived_columns"
    if "dcgm_columns (h ! r)" "frame_rows (h ! r) n"
    using columns_ok [OF that, of GPU_SPECS] b by simp
  show ?thesis
    unfolding run using keep frame ok by auto
qed

theorem add_efficiency_metrics_copy_witness:
  "0 < length [example_dcgm] \<and> dcgm_columns example_dcgm \<and> frame_rows example_dcgm 2
   \<and> (case add_efficiency_metrics [example_dcgm] 0 False of (h', res) \<Rightarrow>
         h' ! 0 = example_dcgm \<and> res = Inr 1 \<and> length h' = 2
       \<and> dom (h' ! 1) = dom example_dcgm \<union> set derived_columns
       \<and> (h' ! 1) ''gpu_utilization_pct'' = Some (NumCol [Some 80, Some 80]))"
proof -
  have "''gpu_utilization_pct'' \<notin> set derived_columns"
    by (simp add: derived_columns_def)
  moreover have "example_dcgm ''gpu_utilization_pct'' = Some (NumCol [Some 80, Some 80])"
    by (simp add: example_dcgm_def)
  ultimately show ?thesis
    using add_efficiency_metrics_copy [of 0 "[example_dcgm]" 2]
      example_dcgm_columns example_dcgm_rows
    by (auto split: prod.splits)
qed

section \<open>Results on the validators\<close>

lemma raises_validation_simps [simp]:
  "raises_validation (Inl (ValidationError m))" "\<not> raises_validation (Inr x)"
  by (simp_all add: raises_validation_def)

lemma raises_validation_bind: "raises_validation m \<Longrightarrow> raises_validation (bindE m f)"
  by (cases m) (simp_all add: raises_validation_def)

lemma check_required_columns_eq:
  "check_required_columns df required name =
     (if spec_missing df required
      then Inl (ValidationError (name @ '': Missing required columns'')) else Inr ())"
  by (auto simp: check_required_columns_def spec_missing_def list_ex_iff filter_empty_conv)

lemma is_num_nums: "is_num df c \<Longrightarrow> df c = Some (NumCol (nums df c))"
  by (auto simp: is_num_def nums_def split: option.splits column.splits)

lemma num_column_num: "is_num df c \<Longrightarrow> num_column df c = Inr (nums df c)"
  by (drule is_num_nums) (simp add: num_column_def)

lemma any_lt_num: "is_num df c \<Longrightarrow> any_lt df c k = Inr (list_ex (\<lambda>a. f_lt a k) (nums df c))"
  by (simp add: any_lt_def num_column_num)

lemma any_gt_num: "is_num df c \<Longrightarrow> any_gt df c k = Inr (list_ex (\<lambda>a. f_gt a k) (nums df c))"
  by (simp add: any_gt_def num_column_num)

lemma negative_num: "is_num df c \<Longrightarrow> any_lt df c 0 = Inr (spec_negative df c)"
  by (simp add: any_lt_num spec_negative_def)

lemma out_of_range_num:
  "is_num df c \<Longrightarrow> out_of_range df c lo hi = Inr (spec_outside df c lo hi)"
  by (auto simp: out_of_range_def any_lt_num any_gt_num spec_outside_def list_ex_iff)

lemma any_gt_col_num:
  "is_num df a \<Longrightarrow> is_num df b \<Longrightarrow>
     any_gt_col df a b = Inr (list_ex (\<lambda>(x, y). f_gt2 x y) (zip (nums df a) (nums df b)))"
  by (simp add: any_gt_col_def num_column_num)

lemma raise_if_Inr [simp]:
  "raise_if (Inr b) msg = (if b then Inl (ValidationError msg) else Inr ())"
  by (simp add: raise_if_def)

lemma check_timestamps_eq:
  "df ''timestamp'' \<noteq> None \<Longrightarrow>
     (spec_bad_timestamp parses df \<longrightarrow> raises_validation (check_timestamps parses df name))
   \<and> (\<not> spec_bad_timestamp parses df \<longrightarrow> check_timestamps parses df name = Inr ())"
  by (auto simp: check_timestamps_def spec_bad_timestamp_def)

lemma present_num:
  "numeric_where_present df cs \<Longrightarrow> c \<in> set cs \<Longrightarrow> df c \<noteq> None \<Longrightarrow> is_num df c"
  by (auto simp: numeric_where_present_def list_all_iff)

lemma not_missing: "\<not> spec_missing df required \<Longrightarrow> c \<in> set required \<Longrightarrow> df c \<noteq> None"
  by (auto simp: spec_missing_def list_ex_iff)

lemma spec_outside_absent: "df c = None \<Longrightarrow> \<not> spec_outside df c lo hi"
  by (simp add: spec_outside_def nums_def)

lemma validate_nodepool_cases:
  assumes "numeric_where_present df nodepool_numeric"
  shows "(spec_nodepool_violation parses df \<longrightarrow> raises_validation (validate_nodepool_data parses df))
    \<and> (\<not> spec_nodepool_violation parses df \<longrightarrow> validate_nodepool_data parses df = Inr ())"
proof (cases "spec_missing df nodepool_required")
  case True
  then show ?thesis
    by (simp add: validate_nodepool_data_def check_required_columns_eq spec_nodepool_violation_def)
next
  case False
  note nm = not_missing [OF False]
  have ts: "df ''timestamp'' \<noteq> None"
    by (rule nm) (simp add: nodepool_required_def)
  have n: "is_num df ''capacity_gpu_count''" "is_num df ''allocatable_gpu_count''"
    by (rule present_num [OF assms], simp add: nodepool_numeric_def, rule nm,
        simp add: nodepool_required_def)+
  show ?thesis
    using False check_timestamps_eq [where df = df and parses = parses and name = "''nodepool_state''", OF ts]
    by (simp add: validate_nodepool_data_def check_required_columns_eq
        spec_nodepool_violation_def negative_num any_gt_col_num n)
qed

lemma validate_kueue_cases:
  assumes "numeric_where_present df kueue_numeric"
  shows "(spec_kueue_violation parses df \<longrightarrow> raises_validation (validate_kueue_data parses df))
    \<and> (\<not> spec_kueue_violation parses df \<longrightarrow> validate_kueue_data parses df = Inr ())"
proof (cases "spec_missing df kueue_required")
  case True
  then show ?thesis
    by (simp add: validate_kueue_data_def check_required_columns_eq spec_kueue_violation_def)
next
  case False
  note nm = not_missing [OF False]
  have ts: "df ''timestamp'' \<noteq> None"
    by (rule nm) (simp add: kueue_required_def)
  have n: "is_num df ''pending_workloads''" "is_num df ''admitted_active_workloads''"
    "is_num df ''resource_usage''" "is_num df ''admission_wait_time_seconds''"
    by (rule present_num [OF assms], simp add: kueue_numeric_def, rule nm,
        simp add: kueue_required_def)+
  show ?thesis
    using False check_timestamps_eq [where df = df and parses = parses and name = "''kueue_metrics''", OF ts]
    by (simp add: validate_kueue_data_def check_required_columns_eq
        spec_kueue_violation_def negative_num n)
qed

lemma validate_dcgm_cases:
  assumes "numeric_where_present df dcgm_numeric"
  shows "(spec_dcgm_violation parses df \<or> spec_negative df ''power_usage_watts''
          \<or> spec_negative df ''memory_used_mb'' \<or> spec_negative df ''memory_free_mb''
        \<longrightarrow> raises_validation (validate_dcgm_data parses df))
    \<and> (\<not> (spec_dcgm_violation parses df \<or> spec_negative df ''power_usage_watts''
          \<or> spec_negative df ''memory_used_mb'' \<or> spec_negative df ''memory_free_mb'')
        \<longrightarrow> validate_dcgm_data parses df = Inr ())"
proof (cases "spec_missing df dcgm_required")
  case True
  then show ?thesis
    by (simp add: validate_dcgm_data_def check_required_columns_eq spec_dcgm_violation_def)
next
  case False
  note nm = not_missing [OF False]
  have ts: "df ''timestamp'' \<noteq> None"
    by (rule nm) (simp add: dcgm_required_def)
  have n: "is_num df ''gpu_utilization_pct''" "is_num df ''power_usage_watts''"
    "is_num df ''memory_used_mb''" "is_num df ''memory_free_mb''" "is_num df ''gpu_temp_celsius''"
    by (rule present_num [OF assms], simp add: dcgm_numeric_def, rule nm,
        simp add: dcgm_required_def)+
  have t: "df ''tensor_active_pct'' \<noteq> None \<Longrightarrow> is_num df ''tensor_active_pct''"
    by (rule present_num [OF assms]) (simp_all add: dcgm_numeric_def)
  show ?thesis
  proof (cases "df ''tensor_active_pct'' = None")
    case True
    with False check_timestamps_eq [where df = df and parses = parses and name = "''dcgm_metrics''", OF ts] show ?thesis
      by (simp add: validate_dcgm_data_def check_required_columns_eq
          spec_dcgm_violation_def negative_num out_of_range_num n spec_outside_absent)
  next
    case present: False
    with False check_timestamps_eq [where df = df and parses = parses and name = "''dcgm_metrics''", OF ts] show ?thesis
      by (simp add: validate_dcgm_data_def check_required_columns_eq
          spec_dcgm_violation_def negative_num out_of_range_num n t)
  qed
qed

lemma test_dcgm_spec:
  "spec_dcgm_violation parses (test_dcgm u w) \<longleftrightarrow> u < 0 \<or> 100 < u"
  by (simp add: spec_dcgm_violation_def spec_missing_def dcgm_required_def spec_outside_def
      spec_bad_timestamp_def has_null_def is_datetime_def nums_def test_dcgm_def)

lemma test_dcgm_numeric: "numeric_where_present (test_dcgm u w) dcgm_numeric"
  by (simp add: numeric_where_present_def dcgm_numeric_def is_num_def test_dcgm_def)

lemma test_kueue_spec: "\<not> spec_kueue_violation parses test_kueue"
  by (simp add: spec_kueue_violation_def spec_missing_def kueue_required_def spec_negative_def
      spec_bad_timestamp_def has_null_def is_datetime_def nums_def test_kueue_def)

lemma test_kueue_numeric: "numeric_where_present test_kueue kueue_numeric"
  by (simp add: numeric_where_present_def kueue_numeric_def is_num_def test_kueue_def)

lemma test_nodepool_spec:
  "spec_nodepool_violation parses (test_nodepool c) \<longleftrightarrow> c < 9"
  by (auto simp add: spec_nodepool_violation_def spec_missing_def nodepool_required_def
      spec_negative_def spec_bad_timestamp_def has_null_def is_datetime_def nums_def
      test_nodepool_def f_gt2_def)

lemma test_nodepool_numeric: "numeric_where_present (test_nodepool c) nodepool_numeric"
  by (simp add: numeric_where_present_def nodepool_numeric_def is_num_def test_nodepool_def)

text \<open>
  Claim C9 (as stated).  \<^verbatim>\<open>validate_dcgm_data\<close> also refuses a negative power and a negative
  memory value, which are none of the checks the claim lists: a DCGM table whose only
  defect is a power of \<open>-1\<close> raises, though it has every required column, utilization and
  temperature in range and a good timestamp.
\<close>

theorem validate_dcgm_negative_power_counterexample:
  "raises_validation (validate_dcgm_data (\<lambda>c. True) (test_dcgm 50 (- 1)))
   \<and> \<not> spec_dcgm_violation (\<lambda>c. True) (test_dcgm 50 (- 1))"
proof -
  have "spec_negative (test_dcgm 50 (- 1)) ''power_usage_watts''"
    by (simp add: spec_negative_def nums_def test_dcgm_def)
  with validate_dcgm_cases [OF test_dcgm_numeric, of "\<lambda>c. True" 50 "- 1"]
  show ?thesis by (simp add: test_dcgm_spec)
qed

text \<open>
  Claim C9 (amended).  For raw tables whose measurement columns are numeric where
  present, each validator raises \<^verbatim>\<open>ValidationError\<close> exactly when its table violates one of
  its checks, and returns normally otherwise: a missing required column, a negative count
  or wait time, allocatable exceeding capacity, a utilization or percentage outside
  [0, 100], a temperature outside [0, 120], a null or unparseable timestamp, and, for
  the DCGM table, also a negative power or memory value.  The generator validates the
  three tables before it emits any of them: it raises when one validator raises, and it
  hands out the tables only when all three validators return.
\<close>

theorem validators_raise_iff:
  assumes "numeric_where_present nodepool_df nodepool_numeric"
    and "numeric_where_present kueue_df kueue_numeric"
    and "numeric_where_present dcgm_df dcgm_numeric"
  shows "(raises_validation (validate_nodepool_data parses nodepool_df)
            \<longleftrightarrow> spec_nodepool_violation parses nodepool_df)
    \<and> (validate_nodepool_data parses nodepool_df = Inr ()
            \<longleftrightarrow> \<not> spec_nodepool_violation parses nodepool_df)
    \<and> (raises_validation (validate_kueue_data parses kueue_df)
            \<longleftrightarrow> spec_kueue_violation parses kueue_df)
    \<and> (validate_kueue_data parses kueue_df = Inr ()
            \<longleftrightarrow> \<not> spec_kueue_violation parses kueue_df)
    \<and> (raises_validation (validate_dcgm_data parses dcgm_df)
            \<longleftrightarrow> spec_dcgm_violation parses dcgm_df
               \<or> spec_negative dcgm_df ''power_usage_watts''
               \<or> spec_negative dcgm_df ''memory_used_mb''
               \<or> spec_negative dcgm_df ''memory_free_mb'')
    \<and> (validate_dcgm_data parses dcgm_df = Inr ()
            \<longleftrightarrow> \<not> (spec_dcgm_violation parses dcgm_df
               \<or> spec_negative dcgm_df ''power_usage_watts''
               \<or> spec_negative dcgm_df ''memory_used_mb''
               \<or> spec_negative dcgm_df ''memory_free_mb''))
    \<and> (raises_validation (generate_synthetic_data_emit parses nodepool_df kueue_df dcgm_df)
            \<longleftrightarrow> raises_validation (validate_nodepool_data parses nodepool_df)
               \<or> raises_validation (validate_kueue_data parses kueue_df)
               \<or> raises_validation (validate_dcgm_data parses dcgm_df))
    \<and> (generate_synthetic_data_emit parses nodepool_df kueue_df dcgm_df
            = Inr (kueue_df, dcgm_df, nodepool_df)
            \<longleftrightarrow> validate_nodepool_data parses nodepool_df = Inr ()
               \<and> validate_kueue_data parses kueue_df = Inr ()
               \<and> validate_dcgm_data parses dcgm_df = Inr ())
    \<and> (validate_all parses nodepool_df kueue_df dcgm_df = Inr ()
            \<longleftrightarrow> validate_nodepool_data parses nodepool_df = Inr ()
               \<and> validate_kueue_data parses kueue_df = Inr ()
               \<and> validate_dcgm_data parses dcgm_df = Inr ())"
proof -
  note n = validate_nodepool_cases [OF assms(1), of parses]
    and k = validate_kueue_cases [OF assms(2), of parses]
    and d = validate_dcgm_cases [OF assms(3), of parses]
  have n1: "raises_validation (validate_nodepool_data parses nodepool_df)
            \<longleftrightarrow> spec_nodepool_violation parses nodepool_df"
    using n by (cases "spec_nodepool_violation parses nodepool_df") simp_all
  have n2: "validate_nodepool_data parses nodepool_df = Inr ()
            \<longleftrightarrow> \<not> spec_nodepool_violation parses nodepool_df"
    using n by (cases "spec_nodepool_violation parses nodepool_df") auto
  have k1: "raises_validation (validate_kueue_data parses kueue_df)
            \<longleftrightarrow> spec_kueue_violation parses kueue_df"
    using k by (cases "spec_kueue_violation parses kueue_df") simp_all
  have k2: "validate_kueue_data parses kueue_df = Inr ()
            \<longleftrightarrow> \<not> spec_kueue_violation parses kueue_df"
    using k by (cases "spec_kueue_violation parses kueue_df") auto
  let ?dv = "spec_dcgm_violation parses dcgm_df
               \<or> spec_negative dcgm_df ''power_usage_watts''
               \<or> spec_negative dcgm_df ''memory_used_mb''
               \<or> spec_negative dcgm_df ''memory_free_mb''"
  have d1: "raises_validation (validate_dcgm_data parses dcgm_df) \<longleftrightarrow> ?dv"
    using d by (cases ?dv) simp_all
  have d2: "validate_dcgm_data parses dcgm_df = Inr () \<longleftrightarrow> \<not> ?dv"
    using d by (cases ?dv) auto
  have e2: "generate_synthetic_data_emit parses nodepool_df kueue_df dcgm_df
            = Inr (kueue_df, dcgm_df, nodepool_df)
            \<longleftrightarrow> validate_nodepool_data parses nodepool_df = Inr ()
               \<and> validate_kueue_data parses kueue_df = Inr ()
               \<and> validate_dcgm_data parses dcgm_df = Inr ()"
    unfolding generate_synthetic_data_emit_def
    by (auto simp: bindE_def split: sum.splits)
  have e1: "raises_validation (generate_synthetic_data_emit parses nodepool_df kueue_df dcgm_df)
            \<longleftrightarrow> raises_validation (validate_nodepool_data parses nodepool_df)
               \<or> raises_validation (validate_kueue_data parses kueue_df)
               \<or> raises_validation (validate_dcgm_data parses dcgm_df)"
  proof (cases "spec_nodepool_violation parses nodepool_df")
    case True
    with n1 show ?thesis
      by (simp add: generate_synthetic_data_emit_def raises_validation_bind)
  next
    case nv: False
    with n2 have pn: "validate_nodepool_data parses nodepool_df = Inr ()" by simp
    show ?thesis
    proof (cases "spec_kueue_violation parses kueue_df")
      case True
      with k1 pn show ?thesis
        by (simp add: generate_synthetic_data_emit_def raises_validation_bind)
    next
      case kv: False
      with k2 have pk: "validate_kueue_data parses kueue_df = Inr ()" by simp
      show ?thesis
      proof (cases ?dv)
        case True
        with d1 pn pk show ?thesis
          by (simp add: generate_synthetic_data_emit_def raises_validation_bind)
      next
        case False
        with d2 have "validate_dcgm_data parses dcgm_df = Inr ()" by simp
        with pn pk show ?thesis
          by (simp add: generate_synthetic_data_emit_def)
      qed
    qed
  qed
  have e3: "validate_all parses nodepool_df kueue_df dcgm_df = Inr ()
            \<longleftrightarrow> validate_nodepool_data parses nodepool_df = Inr ()
               \<and> validate_kueue_data parses kueue_df = Inr ()
               \<and> validate_dcgm_data parses dcgm_df = Inr ()"
    unfolding validate_all_def
    by (auto simp: bindE_def split: sum.splits)
  from n1 n2 k1 k2 d1 d2 e1 e2 e3 show ?thesis by blast
qed

theorem validators_raise_iff_witness:
  "numeric_where_present (test_nodepool 10) nodepool_numeric
   \<and> numeric_where_present test_kueue kueue_numeric
   \<and> numeric_where_present (test_dcgm 150 300) dcgm_numeric
   \<and> validate_nodepool_data (\<lambda>c. True) (test_nodepool 10) = Inr ()
   \<and> validate_kueue_data (\<lambda>c. True) test_kueue = Inr ()
   \<and> raises_validation (validate_dcgm_data (\<lambda>c. True) (test_dcgm 150 300))
   \<and> raises_validation
        (generate_synthetic_data_emit (\<lambda>c. True) (test_nodepool 10) test_kueue (test_dcgm 150 300))"
  using validators_raise_iff
    [OF test_nodepool_numeric [of 10] test_kueue_numeric test_dcgm_numeric [of 150 300],
      where parses = "\<lambda>c. True"]
  by (simp add: test_nodepool_numeric test_kueue_numeric test_dcgm_numeric
      test_nodepool_spec test_kueue_spec test_dcgm_spec)

section \<open>Results on the join\<close>

lemma bindE_InrD: "bindE m f = Inr y \<Longrightarrow> \<exists>x. m = Inr x \<and> f x = Inr y"
  by (cases m) simp_all

lemma map_of_keyed:
  "map_of (map (\<lambda>k. (k, f k)) ks) k = (if k \<in> set ks then Some (f k) else None)"
  by (induction ks) auto

lemma groupby_agg_rows:
  assumes "groupby_agg df cfg = Inr t"
  shows "value_columns t = map fst cfg"
    and "map_of (agg_rows t) k = None \<longleftrightarrow> k \<notin> row_key ` set (rows df)"
proof -
  from assms have t: "t = \<lparr> value_columns = map fst cfg,
                agg_rows =
                  map (\<lambda>k. (k, map (\<lambda>(c, a).
                                    (c, reduce a (map (\<lambda>r. cells r c)
                                                   (filter (\<lambda>r. row_key r = k) (rows df)))))
                                cfg))
                    (sort (remdups (map row_key (rows df)))) \<rparr>"
    by (auto simp: groupby_agg_def split: list.splits)
  show "value_columns t = map fst cfg" by (simp add: t)
  show "map_of (agg_rows t) k = None \<longleftrightarrow> k \<notin> row_key ` set (rows df)"
    by (simp add: t map_of_keyed)
qed

lemma aggregate_to_hourly_rows:
  assumes "aggregate_to_hourly df (Some cfg) = Inr t"
  shows "value_columns t = map fst cfg"
    and "map_of (agg_rows t) k = None \<longleftrightarrow> k \<notin> hour_key ` set (rows df)"
proof -
  let ?df1 = "df\<lparr> rows := map (\<lambda>r. r\<lparr> timestamp_hour := floor_hour (timestamp r) \<rparr>) (rows df) \<rparr>"
  from assms have g: "groupby_agg ?df1 cfg = Inr t"
    by (simp add: aggregate_to_hourly_def)
  have "row_key ` set (rows ?df1) = hour_key ` set (rows df)"
    by (auto simp: row_key_def hour_key_def image_iff)
  with groupby_agg_rows [OF g] show "value_columns t = map fst cfg"
    and "map_of (agg_rows t) k = None \<longleftrightarrow> k \<notin> hour_key ` set (rows df)"
    by simp_all
qed

lemma merge_outer_row:
  assumes "(k, cs) \<in> set (agg_rows (merge_outer l r sfx))"
  shows "cs = merge_side l (\<lambda>c. if c \<in> set (value_columns r) then c @ fst sfx else c) k
            @ merge_side r (\<lambda>c. if c \<in> set (value_columns l) then c @ snd sfx else c) k"
  using assms by (auto simp: merge_outer_def Let_def)

lemma merge_outer_columns:
  "value_columns (merge_outer l r sfx) =
     map (\<lambda>c. if c \<in> set (value_columns r) then c @ fst sfx else c) (value_columns l)
     @ map (\<lambda>c. if c \<in> set (value_columns l) then c @ snd sfx else c) (value_columns r)"
  by (simp add: merge_outer_def Let_def)

lemma merge_outer_lookup:
  "map_of (agg_rows (merge_outer l r sfx)) k =
     (if k \<in> fst ` set (agg_rows l) \<union> fst ` set (agg_rows r)
      then Some (merge_side l (\<lambda>c. if c \<in> set (value_columns r) then c @ fst sfx else c) k
            @ merge_side r (\<lambda>c. if c \<in> set (value_columns l) then c @ snd sfx else c) k)
      else None)"
  by (simp add: merge_outer_def Let_def map_of_keyed)

lemma fillna_columns_row:
  assumes "(k, cs) \<in> set (agg_rows (fillna_columns fills t))"
  shows "\<exists>cs0. (k, cs0) \<in> set (agg_rows t)
     \<and> cs = map (\<lambda>(c, v). (c, case map_of fills c of None \<Rightarrow> v | Some d \<Rightarrow> fillna d v)) cs0"
  using assms by (auto simp: fillna_columns_def)

lemma groupby_agg_returns:
  "list_all (\<lambda>c. c \<in> set (columns df)) (map fst cfg) \<Longrightarrow> \<exists>t. groupby_agg df cfg = Inr t"
  by (auto simp: groupby_agg_def list_all_iff filter_empty_conv split: list.splits)

lemma aggregate_to_hourly_returns:
  "list_all (\<lambda>c. c \<in> set (columns df)) (map fst cfg) \<Longrightarrow>
     \<exists>t. aggregate_to_hourly df (Some cfg) = Inr t"
  using groupby_agg_returns
    [of "df\<lparr> rows := map (\<lambda>r. r\<lparr> timestamp_hour := floor_hour (timestamp r) \<rparr>) (rows df) \<rparr>" cfg]
  by (simp add: aggregate_to_hourly_def)

lemma build_unified_model_returns:
  assumes "unified_inputs kueue_df dcgm_df nodepool_df"
  shows "\<exists>unified. build_unified_model kueue_df dcgm_df nodepool_df = Inr unified"
proof -
  from assms obtain kh where kh: "aggregate_to_hourly kueue_df (Some
        [(''pending_workloads'', AggSum),
         (''admission_wait_time_seconds'', AggMean),
         (''admitted_active_workloads'', AggSum),
         (''resource_usage'', AggSum),
         (''evicted_workloads_total'', AggMax)]) = Inr kh"
    using aggregate_to_hourly_returns [of kueue_df]
    by (fastforce simp: unified_inputs_def demand_columns_def)
  from assms obtain dh where dh: "aggregate_to_hourly dcgm_df (Some
        [(''gpu_utilization_pct'', AggMean),
         (''power_usage_watts'', AggMean),
         (''power_intensity_factor'', mean_or_first dcgm_df ''power_intensity_factor''),
         (''rfu_pct'', mean_or_first dcgm_df ''rfu_pct''),
         (''efficiency_gap'', mean_or_first dcgm_df ''efficiency_gap''),
         (''memory_used_mb'', AggMean),
         (''gpu_temp_celsius'', AggMean),
         (''tensor_active_pct'', mean_or_first dcgm_df ''tensor_active_pct'')]) = Inr dh"
    using aggregate_to_hourly_returns [of dcgm_df]
    by (fastforce simp: unified_inputs_def unified_efficiency_columns_def)
  from assms obtain nh where nh: "aggregate_to_hourly nodepool_df (Some
        [(''capacity_gpu_count'', AggMean),
         (''allocatable_gpu_count'', AggMean)]) = Inr nh"
    using aggregate_to_hourly_returns [of nodepool_df]
    by (fastforce simp: unified_inputs_def)
  show ?thesis
    by (simp add: build_unified_model_def kh dh nh Let_def)
qed

text \<open>
  The join of \<^verbatim>\<open>build_unified_model\<close> does what the specification says of the joiner: when
  it returns (and it returns whenever the three tables have the columns it aggregates),
  a row whose key has no demand rows has 0 in the four demand columns, and a row whose
  key has no GPU telemetry has \<^verbatim>\<open>NaN\<close> in every efficiency column.
\<close>

lemma build_unified_model_fills_demand:
  assumes "build_unified_model kueue_df dcgm_df nodepool_df = Inr unified"
    and "(k, cs) \<in> set (agg_rows unified)"
  shows "(k \<notin> hour_key ` set (rows kueue_df)
            \<longrightarrow> list_all (\<lambda>c. lookup_cell cs c = Some 0) demand_columns)
       \<and> (k \<notin> hour_key ` set (rows dcgm_df)
            \<longrightarrow> list_all (\<lambda>c. lookup_cell cs c = None) unified_efficiency_columns)"
proof -
  from assms(1) obtain kh dh nh where
    kh: "aggregate_to_hourly kueue_df (Some
        [(''pending_workloads'', AggSum),
         (''admission_wait_time_seconds'', AggMean),
         (''admitted_active_workloads'', AggSum),
         (''resource_usage'', AggSum),
         (''evicted_workloads_total'', AggMax)]) = Inr kh"
    and dh: "aggregate_to_hourly dcgm_df (Some
        [(''gpu_utilization_pct'', AggMean),
         (''power_usage_watts'', AggMean),
         (''power_intensity_factor'', mean_or_first dcgm_df ''power_intensity_factor''),
         (''rfu_pct'', mean_or_first dcgm_df ''rfu_pct''),
         (''efficiency_gap'', mean_or_first dcgm_df ''efficiency_gap''),
         (''memory_used_mb'', AggMean),
         (''gpu_temp_celsius'', AggMean),
         (''tensor_active_pct'', mean_or_first dcgm_df ''tensor_active_pct'')]) = Inr dh"
    and nh: "aggregate_to_hourly nodepool_df (Some
        [(''capacity_gpu_count'', AggMean),
         (''allocatable_gpu_count'', AggMean)]) = Inr nh"
    and u: "unified = fillna_columns
                 [(''pending_workloads'', 0), (''admission_wait_time_seconds'', 0),
                  (''admitted_active_workloads'', 0), (''resource_usage'', 0)]
                 (merge_outer (merge_outer kh nh (''_kueue'', ''_nodepool'')) dh ([], ''_dcgm''))"
    unfolding build_unified_model_def
    by (auto dest!: bindE_InrD simp: Let_def)
  note kc = aggregate_to_hourly_rows(1) [OF kh] and kk = aggregate_to_hourly_rows(2) [OF kh]
  note dc = aggregate_to_hourly_rows(1) [OF dh] and dk = aggregate_to_hourly_rows(2) [OF dh]
  note nc = aggregate_to_hourly_rows(1) [OF nh]
  let ?u1 = "merge_outer kh nh (''_kueue'', ''_nodepool'')"
  have u1c: "value_columns ?u1 = [''pending_workloads'', ''admission_wait_time_seconds'',
      ''admitted_active_workloads'', ''resource_usage'', ''evicted_workloads_total'',
      ''capacity_gpu_count'', ''allocatable_gpu_count'']"
    by (simp add: merge_outer_columns kc nc)
  from assms(2) u obtain cs0 where
    cs0: "(k, cs0) \<in> set (agg_rows (merge_outer ?u1 dh ([], ''_dcgm'')))"
    and cs: "cs = map (\<lambda>(c, v). (c, case map_of
                 [(''pending_workloads'', 0::real), (''admission_wait_time_seconds'', 0),
                  (''admitted_active_workloads'', 0), (''resource_usage'', 0)] c of
                 None \<Rightarrow> v | Some d \<Rightarrow> fillna d v)) cs0"
    by (auto dest: fillna_columns_row)
  note row = merge_outer_row [OF cs0]
  have demand: "list_all (\<lambda>c. lookup_cell cs c = Some 0) demand_columns"
    if "k \<notin> hour_key ` set (rows kueue_df)"
  proof -
    from that kk have none: "map_of (agg_rows kh) k = None" by simp
    show ?thesis
      unfolding cs row
      by (simp add: merge_side_def u1c dc kc nc merge_outer_lookup none lookup_cell_def
          demand_columns_def fillna_def split: option.splits)
  qed
  have eff: "list_all (\<lambda>c. lookup_cell cs c = None) unified_efficiency_columns"
    if "k \<notin> hour_key ` set (rows dcgm_df)"
  proof -
    from that dk have none: "map_of (agg_rows dh) k = None" by simp
    show ?thesis
      unfolding cs row
      by (simp add: merge_side_def u1c dc none lookup_cell_def unified_efficiency_columns_def)
  qed
  from demand eff show ?thesis by blast
qed

text \<open>
  For instance, with capacity rows for two nodegroups and neither demand rows nor
  telemetry, both joined rows have 0 in the demand columns and \<^verbatim>\<open>NaN\<close> in the
  efficiency columns.
\<close>

lemma no_rows_hourly:
  "list_all (\<lambda>c. c \<in> set cs) (map fst cfg) \<Longrightarrow>
     aggregate_to_hourly (no_rows cs) (Some cfg) = Inr \<lparr> value_columns = map fst cfg, agg_rows = [] \<rparr>"
  by (auto simp: aggregate_to_hourly_def groupby_agg_def no_rows_def list_all_iff
      filter_empty_conv split: list.splits)

lemma example_nodepool_hourly:
  "aggregate_to_hourly example_nodepool
     (Some [(''capacity_gpu_count'', AggMean), (''allocatable_gpu_count'', AggMean)])
   = Inr \<lparr> value_columns = [''capacity_gpu_count'', ''allocatable_gpu_count''],
            agg_rows =
              [((1767225600, ''ng-a''),
                [(''capacity_gpu_count'', Some 8), (''allocatable_gpu_count'', Some 8)]),
               ((1767225600, ''ng-b''),
                [(''capacity_gpu_count'', Some 8), (''allocatable_gpu_count'', Some 8)])] \<rparr>"
  by (simp add: aggregate_to_hourly_def floor_hour_def groupby_agg_def reduce_def row_key_def
      cells_of_def example_nodepool_def)

lemma columns_no_rows [simp]: "columns (no_rows cs) = cs"
  by (simp add: no_rows_def)

lemma build_unified_model_capacity_only:
  "build_unified_model
     (no_rows (demand_columns @ [''evicted_workloads_total'']))
     (no_rows unified_efficiency_columns) example_nodepool
   = Inr \<lparr> value_columns = demand_columns @ [''evicted_workloads_total'',
                ''capacity_gpu_count'', ''allocatable_gpu_count''] @ unified_efficiency_columns,
            agg_rows =
              map (\<lambda>g. ((1767225600, g),
                     map (\<lambda>c. (c, Some 0)) demand_columns
                     @ [(''evicted_workloads_total'', None),
                        (''capacity_gpu_count'', Some 8), (''allocatable_gpu_count'', Some 8)]
                     @ map (\<lambda>c. (c, None)) unified_efficiency_columns))
                [''ng-a'', ''ng-b''] \<rparr>"
  by (simp add: build_unified_model_def no_rows_hourly example_nodepool_hourly
      demand_columns_def unified_efficiency_columns_def mean_or_first_def
      merge_outer_def merge_side_def lookup_cell_def fillna_columns_def fillna_def
      cong: bindE_weak_cong)

text \<open>
  The join inside \<^verbatim>\<open>calculate_all_imbalance_metrics\<close> has no \<^verbatim>\<open>fillna\<close>: a row whose key has no
  demand rows has \<^verbatim>\<open>NaN\<close> in the four demand columns.
\<close>

lemma imbalance_join_demand_missing:
  assumes "imbalance_join kueue_df dcgm_df nodepool_df = Inr joined"
    and "(k, cs) \<in> set (agg_rows joined)"
    and "k \<notin> row_key ` set (rows kueue_df)"
  shows "list_all (\<lambda>c. lookup_cell cs c = None) demand_columns"
proof -
  from assms(1) obtain ka da na where
    ka: "groupby_agg kueue_df
        [(''pending_workloads'', AggSum),
         (''admission_wait_time_seconds'', AggMean),
         (''admitted_active_workloads'', AggSum),
         (''resource_usage'', AggSum)] = Inr ka"
    and da: "groupby_agg dcgm_df
        [(''gpu_utilization_pct'', AggMean),
         (''power_intensity_factor'', AggMean),
         (''rfu_pct'', AggMean),
         (''efficiency_gap'', AggMean),
         (''memory_pressure_pct'', AggMean)] = Inr da"
    and na: "groupby_agg nodepool_df
        [(''capacity_gpu_count'', AggMean),
         (''allocatable_gpu_count'', AggMean)] = Inr na"
    and j: "joined = merge_outer (merge_outer ka na (''_x'', ''_y'')) da (''_x'', ''_y'')"
    unfolding imbalance_join_def
    by (auto dest!: bindE_InrD simp: Let_def)
  note kc = groupby_agg_rows(1) [OF ka] and kk = groupby_agg_rows(2) [OF ka]
  note dc = groupby_agg_rows(1) [OF da] and nc = groupby_agg_rows(1) [OF na]
  let ?u1 = "merge_outer ka na (''_x'', ''_y'')"
  have u1c: "value_columns ?u1 = [''pending_workloads'', ''admission_wait_time_seconds'',
      ''admitted_active_workloads'', ''resource_usage'',
      ''capacity_gpu_count'', ''allocatable_gpu_count'']"
    by (simp add: merge_outer_columns kc nc)
  from assms(3) kk have none: "map_of (agg_rows ka) k = None" by simp
  from assms(2) j have "(k, cs) \<in> set (agg_rows (merge_outer ?u1 da (''_x'', ''_y'')))"
    by simp
  note row = merge_outer_row [OF this]
  show ?thesis
    unfolding row
    by (simp add: merge_side_def u1c dc kc nc merge_outer_lookup none lookup_cell_def
        demand_columns_def split: option.splits)
qed

lemma example_kueue_agg:
  "groupby_agg example_kueue
        [(''pending_workloads'', AggSum),
         (''admission_wait_time_seconds'', AggMean),
         (''admitted_active_workloads'', AggSum),
         (''resource_usage'', AggSum)]
   = Inr \<lparr> value_columns = [''pending_workloads'', ''admission_wait_time_seconds'',
                ''admitted_active_workloads'', ''resource_usage''],
            agg_rows = [((1767225600, ''ng-a''),
              [(''pending_workloads'', Some 4), (''admission_wait_time_seconds'', Some 120),
               (''admitted_active_workloads'', Some 6), (''resource_usage'', Some 6)])] \<rparr>"
  by (simp add: groupby_agg_def reduce_def row_key_def cells_of_def example_kueue_def)

lemma example_telemetry_agg:
  "groupby_agg example_telemetry
        [(''gpu_utilization_pct'', AggMean),
         (''power_intensity_factor'', AggMean),
         (''rfu_pct'', AggMean),
         (''efficiency_gap'', AggMean),
         (''memory_pressure_pct'', AggMean)]
   = Inr \<lparr> value_columns = [''gpu_utilization_pct'', ''power_intensity_factor'', ''rfu_pct'',
                ''efficiency_gap'', ''memory_pressure_pct''],
            agg_rows =
              [((1767225600, ''ng-a''),
                [(''gpu_utilization_pct'', Some 80), (''power_intensity_factor'', Some (1 / 2)),
                 (''rfu_pct'', Some 50), (''efficiency_gap'', Some 30),
                 (''memory_pressure_pct'', Some 25)]),
               ((1767225600, ''ng-b''),
                [(''gpu_utilization_pct'', Some 60), (''power_intensity_factor'', Some (3 / 4)),
                 (''rfu_pct'', Some 75), (''efficiency_gap'', Some (- 15)),
                 (''memory_pressure_pct'', Some 50)])] \<rparr>"
  by (simp add: groupby_agg_def reduce_def row_key_def cells_of_def example_telemetry_def)

lemma example_nodepool_agg:
  "groupby_agg example_nodepool
        [(''capacity_gpu_count'', AggMean), (''allocatable_gpu_count'', AggMean)]
   = Inr \<lparr> value_columns = [''capacity_gpu_count'', ''allocatable_gpu_count''],
            agg_rows =
              [((1767225600, ''ng-a''),
                [(''capacity_gpu_count'', Some 8), (''allocatable_gpu_count'', Some 8)]),
               ((1767225600, ''ng-b''),
                [(''capacity_gpu_count'', Some 8), (''allocatable_gpu_count'', Some 8)])] \<rparr>"
  by (simp add: groupby_agg_def reduce_def row_key_def cells_of_def example_nodepool_def)

lemma example_imbalance_join:
  "imbalance_join example_kueue example_telemetry example_nodepool = Inr (example_joined None)"
  by (simp add: imbalance_join_def example_kueue_agg example_telemetry_agg example_nodepool_agg
      merge_outer_def merge_side_def lookup_cell_def example_joined_def)

text \<open>
  Claim C3.  The claim holds for the join of \<^verbatim>\<open>build_unified_model\<close> and fails for the
  join that \<^verbatim>\<open>calculate_all_imbalance_metrics\<close> performs.  On the example input, where the
  nodegroup \<open>ng-b\<close> has capacity and telemetry but no demand rows, the joined row of
  \<open>ng-b\<close> has \<^verbatim>\<open>NaN\<close>, not 0, in the four demand columns; its available capacity, ratio and
  scores are \<^verbatim>\<open>NaN\<close> and it is labelled \<open>Healthy\<close>.
\<close>

theorem imbalance_join_example_demand_missing:
  "(1767225600, ''ng-b'') \<notin> row_key ` set (rows example_kueue)
   \<and> imbalance_join example_kueue example_telemetry example_nodepool
       = Inr (example_joined None)
   \<and> example_joined None \<noteq> example_joined (Some 0)
   \<and> calculate_all_imbalance_metrics example_kueue example_telemetry example_nodepool
       = Inr (example_scored, [''Warning'', ''Healthy''])"
proof (intro conjI)
  show "(1767225600, ''ng-b'') \<notin> row_key ` set (rows example_kueue)"
    by (simp add: example_kueue_def row_key_def)
  show "imbalance_join example_kueue example_telemetry example_nodepool
       = Inr (example_joined None)"
    by (rule example_imbalance_join)
  show "example_joined None \<noteq> example_joined (Some 0)"
    by (simp add: example_joined_def)
  show "calculate_all_imbalance_metrics example_kueue example_telemetry example_nodepool
       = Inr (example_scored, [''Warning'', ''Healthy''])"
    by (simp add: calculate_all_imbalance_metrics_def example_imbalance_join example_joined_def
      example_scored_def
      column_of_def set_column_def lookup_cell_def calculate_demand_capacity_ratio_def
      epsilon_default_def calculate_queue_pressure_score_def normalize_series_def
      calculate_composite_imbalance_score_def classify_imbalance_severity_def classify_def
      nanmin_def nanmax_def replace_0_1_def f_add_def f_sub_def f_mul_def f_div_def f_clip_def
      f_gt_def cong: bindE_weak_cong)
qed

end
